theory Spec2Isabelle
  imports Complex_Main
begin

section \<open>Data shared by the variants\<close>

text \<open>
  The repository holds three variants of one visualisation: the class \<open>SolarSystem\<close> of
  \<open>script.js\<close>, the same class inlined in an HTML page, and an ES module built on lil-gui
  and tween.js. JavaScript numbers are modelled as reals: every equation below between
  numbers is an equation of the mathematical values, which the running program meets up
  to the rounding of IEEE doubles. Where the code divides by a size of the window, which
  may be zero, the quotient is a \<open>js_number\<close>, with the infinities and the \<open>NaN\<close> that
  JavaScript yields there. The distances that divide are positive constants of the
  tables; a theorem about any other planet assumes that its distance is not zero.
\<close>

datatype js_number = Num real | PosInfinity | NegInfinity | NaN

text \<open>
  The quotient of two numbers. The divisors are sizes of the window, which are never
  the negative zero.
\<close>

definition js_divide :: "real \<Rightarrow> real \<Rightarrow> js_number" where
  "js_divide a b =
     (if b \<noteq> 0 then Num (a / b)
      else if 0 < a then PosInfinity else if a < 0 then NegInfinity else NaN)"

fun js_negate :: "js_number \<Rightarrow> js_number" where
  "js_negate (Num a) = Num (- a)"
| "js_negate PosInfinity = NegInfinity"
| "js_negate NegInfinity = PosInfinity"
| "js_negate NaN = NaN"

text \<open>A JavaScript number times, and plus, an ordinary number.\<close>

fun js_times :: "js_number \<Rightarrow> real \<Rightarrow> js_number" where
  "js_times (Num a) k = Num (a * k)"
| "js_times PosInfinity k = (if 0 < k then PosInfinity else if k < 0 then NegInfinity else NaN)"
| "js_times NegInfinity k = (if 0 < k then NegInfinity else if k < 0 then PosInfinity else NaN)"
| "js_times NaN k = NaN"

fun js_plus :: "js_number \<Rightarrow> real \<Rightarrow> js_number" where
  "js_plus (Num a) c = Num (a + c)"
| "js_plus PosInfinity c = PosInfinity"
| "js_plus NegInfinity c = NegInfinity"
| "js_plus NaN c = NaN"

text \<open>
  The pointer in normalised device coordinates, as the three handlers of the pointer
  compute it: \<open>(clientX / innerWidth) * 2 - 1\<close> and \<open>-(clientY / innerHeight) * 2 + 1\<close>.
\<close>

definition pointer :: "real \<Rightarrow> real \<Rightarrow> real \<Rightarrow> real \<Rightarrow> js_number \<times> js_number" where
  "pointer clientX clientY w h =
     (js_plus (js_times (js_divide clientX w) 2) (- 1),
      js_plus (js_times (js_negate (js_divide clientY h)) 2) 1)"

record vector3 =
  vx :: real
  vy :: real
  vz :: real

definition Vector3 :: "real \<Rightarrow> real \<Rightarrow> real \<Rightarrow> vector3" where
  "Vector3 a b c = \<lparr>vx = a, vy = b, vz = c\<rparr>"

datatype geometry =
    SphereGeometry real
  | RingGeometry real real
  | BufferGeometry
  | Css2dDiv string
  | NoGeometry

text \<open>
  A three.js \<open>Object3D\<close>: a new one sits at the origin, unrotated and visible, with an
  empty name. \<open>obj_type\<close> is three.js's \<open>type\<close> tag.
\<close>

record object3d =
  obj_type :: string
  obj_name :: string
  geometry :: geometry
  position :: vector3
  rotation :: vector3
  visible :: bool

record mesh = object3d +
  children :: "object3d list"

definition Object3D :: "string \<Rightarrow> geometry \<Rightarrow> object3d" where
  "Object3D t g = \<lparr>obj_type = t, obj_name = [], geometry = g,
     position = Vector3 0 0 0, rotation = Vector3 0 0 0, visible = True\<rparr>"

definition Mesh :: "geometry \<Rightarrow> mesh" where
  "Mesh g = \<lparr>obj_type = ''Mesh'', obj_name = [], geometry = g,
     position = Vector3 0 0 0, rotation = Vector3 0 0 0, visible = True, children = []\<rparr>"

text \<open>
  JavaScript compares objects by reference. A reference to a scene object is modelled by
  the place it was created for: the planet arrays are filled once and never change, so the
  index of a planet names its mesh, its orbit ring and its children.
\<close>

datatype obj_ref =
    RefStarField
  | RefSun
  | RefSunOrbit
  | RefAmbientLight
  | RefSunLight
  | RefOrbit nat
  | RefPlanet nat
  | RefRings nat
  | RefLabel nat
  | RefSunLabel

datatype js_error = TypeError string | ReferenceError string

record camera =
  fov :: real
  aspect :: js_number
  near :: real
  far :: real
  cam_position :: vector3

record renderer =
  width :: real
  height :: real
  pixelRatio :: real

subsection \<open>The ray caster of three.js\<close>

text \<open>
  \<open>Raycaster.intersectObjects(objects)\<close> calls \<open>raycast\<close> on the objects it is given,
  and returns the intersections sorted by distance, the closest first. Where the ray
  meets a mesh is geometry of the library: it is the parameter \<open>hit\<close>, which gives for
  every object of the scene the distances at which the current ray meets it. A light or a
  CSS2D label inherits the empty \<open>raycast\<close> of \<open>Object3D\<close> and is never met.
\<close>

type_synonym intersection = "real \<times> obj_ref"

fun raycast :: "(obj_ref \<Rightarrow> real list) \<Rightarrow> obj_ref \<Rightarrow> real list" where
  "raycast hit (RefLabel i) = []"
| "raycast hit RefSunLabel = []"
| "raycast hit RefAmbientLight = []"
| "raycast hit RefSunLight = []"
| "raycast hit r = hit r"

definition intersectObjects :: "(obj_ref \<Rightarrow> real list) \<Rightarrow> obj_ref list \<Rightarrow> intersection list" where
  "intersectObjects hit objects =
     sort_key fst (concat (map (\<lambda>r. map (\<lambda>d. (d, r)) (raycast hit r)) objects))"

section \<open>script.js: the class SolarSystem\<close>

record planet_config =
  name :: string
  color :: nat
  size :: real
  distance :: real

record planet = planet_config +
  mesh :: mesh
  orbit :: object3d
  angle :: real

record controls =
  enableDamping :: bool
  dampingFactor :: real
  minDistance :: real
  maxDistance :: real
  autoRotate :: bool
  autoRotateSpeed :: real
  rotateSpeed :: real
  enabled :: bool
  target :: vector3

text \<open>What a span of the info panel shows: the number is kept, its formatting is not.\<close>

datatype span_text = Str string | Km real | EarthDays int | MillionKm real

text \<open>
  The state is the browser page together with the fields of the \<open>SolarSystem\<close> object.
  \<open>document\<close> is the set of element ids the page has; \<open>listeners\<close> the registered
  (target, event) pairs; \<open>console\<close> the messages of \<open>console.error\<close>; \<open>raf\<close> the number
  of pending animation-frame callbacks; \<open>frames\<close> the number of calls of
  \<open>renderer.render\<close> and \<open>controls_updates\<close> those of \<open>controls.update\<close>.
  A field of \<open>this\<close> that the code tests for presence is an option.
\<close>

record solar_system =
  innerWidth :: real
  innerHeight :: real
  devicePixelRatio :: real
  document :: "string set"
  canvas_attached :: bool
  textContent :: "string \<rightharpoonup> span_text"
  panel_active :: bool
  listeners :: "(string \<times> string) list"
  console :: "string list"
  raf :: nat
  frames :: nat
  controls_updates :: nat
  scene :: "obj_ref list"
  camera :: "camera option"
  renderer :: "renderer option"
  sun :: "mesh option"
  planets :: "planet list"
  controls :: "controls option"
  simulationSpeed :: "real option"
  mouse :: "(js_number \<times> js_number) option"

text \<open>The page before \<open>new SolarSystem()\<close> runs.\<close>

definition page :: "string set \<Rightarrow> real \<Rightarrow> real \<Rightarrow> real \<Rightarrow> solar_system" where
  "page ids w h dpr = \<lparr>innerWidth = w, innerHeight = h, devicePixelRatio = dpr,
     document = ids, canvas_attached = False, textContent = Map.empty,
     panel_active = False, listeners = [], console = [], raf = 0, frames = 0,
     controls_updates = 0, scene = [], camera = None, renderer = None, sun = None,
     planets = [], controls = None, simulationSpeed = None, mouse = None\<rparr>"

text \<open>
  \<open>initScene\<close>: camera, renderer (its canvas appended to the page), the star field, and the
  camera moved to z = 50. The 10000 random star vertices are not kept.
\<close>

definition initScene :: "solar_system \<Rightarrow> solar_system" where
  "initScene s =
     (let cam = \<lparr>fov = 75, aspect = js_divide (innerWidth s) (innerHeight s), near = 0.1, far = 1000,
                 cam_position = Vector3 0 0 0\<rparr>;
          rnd = \<lparr>width = innerWidth s, height = innerHeight s,
                 pixelRatio = devicePixelRatio s\<rparr>
      in s\<lparr>scene := [RefStarField],
           camera := Some (cam\<lparr>cam_position := (cam_position cam)\<lparr>vz := 50\<rparr>\<rparr>),
           renderer := Some rnd,
           canvas_attached := True\<rparr>)"

definition planet_table :: "planet_config list" where
  "planet_table =
     [\<lparr>name = ''Mercury'', color = 0xA0522D, size = 0.4, distance = 10\<rparr>,
      \<lparr>name = ''Venus'', color = 0xDEB887, size = 0.95, distance = 15\<rparr>,
      \<lparr>name = ''Earth'', color = 0x4169E1, size = 1, distance = 20\<rparr>,
      \<lparr>name = ''Mars'', color = 0xFF4500, size = 0.5, distance = 25\<rparr>,
      \<lparr>name = ''Jupiter'', color = 0xDAA520, size = 2.5, distance = 35\<rparr>,
      \<lparr>name = ''Saturn'', color = 0xF4A460, size = 2, distance = 45\<rparr>,
      \<lparr>name = ''Uranus'', color = 0x87CEEB, size = 1.7, distance = 55\<rparr>,
      \<lparr>name = ''Neptune'', color = 0x0000CD, size = 1.6, distance = 65\<rparr>]"

text \<open>
  The body of the \<open>planets.map\<close> callback, for one configuration and one draw \<open>r\<close> of
  \<open>Math.random()\<close>: the sphere, Saturn's tilted rings as its child, the orbit ring, and
  the record \<open>{...config, mesh, orbit, angle}\<close>.
\<close>

definition make_planet :: "planet_config \<Rightarrow> real \<Rightarrow> planet" where
  "make_planet config r =
     (let planet0 = Mesh (SphereGeometry (size config));
          ringsMesh = (Object3D ''Mesh'' (RingGeometry (size config * 1.2) (size config * 2.2)))
                        \<lparr>rotation := Vector3 (pi * 0.4) 0 0\<rparr>;
          planet1 = (if name config = ''Saturn''
                     then planet0\<lparr>children := children planet0 @ [ringsMesh]\<rparr> else planet0);
          orbit0 = (Object3D ''Mesh'' (RingGeometry (distance config - 0.1) (distance config)))
                        \<lparr>rotation := Vector3 (pi / 2) 0 0\<rparr>
      in \<lparr>name = name config, color = color config, size = size config,
          distance = distance config, mesh = planet1, orbit = orbit0, angle = r * pi * 2\<rparr>)"

text \<open>
  \<open>createCelestialBodies\<close>: the sun, then per planet its orbit ring added to the scene
  inside the map, then all planet meshes, the ambient light, and the point light as a
  child of the sun. \<open>rnd i\<close> is the draw of \<open>Math.random()\<close> for planet \<open>i\<close>.
\<close>

definition createCelestialBodies :: "(nat \<Rightarrow> real) \<Rightarrow> solar_system \<Rightarrow> solar_system" where
  "createCelestialBodies rnd s =
     (let s1 = s\<lparr>sun := Some (Mesh (SphereGeometry 3)), scene := scene s @ [RefSun]\<rparr>;
          ps = map (\<lambda>(i, config). make_planet config (rnd i)) (enumerate 0 planet_table);
          s2 = s1\<lparr>scene := scene s1 @ map RefOrbit [0..<length planet_table], planets := ps\<rparr>;
          s3 = s2\<lparr>scene := scene s2 @ map RefPlanet [0..<length (planets s2)]\<rparr>;
          s4 = s3\<lparr>scene := scene s3 @ [RefAmbientLight]\<rparr>
      in s4\<lparr>sun := map_option
             (\<lambda>m. m\<lparr>children := children m @ [Object3D ''PointLight'' NoGeometry]\<rparr>) (sun s4)\<rparr>)"

text \<open>\<open>rotateSpeed\<close>, \<open>enabled\<close> and \<open>target\<close> keep the defaults of \<open>OrbitControls\<close>.\<close>

definition setupControls :: "solar_system \<Rightarrow> solar_system" where
  "setupControls s = s\<lparr>controls := Some \<lparr>enableDamping = True, dampingFactor = 0.05,
     minDistance = 20, maxDistance = 200, autoRotate = True, autoRotateSpeed = 0.5,
     rotateSpeed = 1, enabled = True, target = Vector3 0 0 0\<rparr>\<rparr>"

text \<open>
  A method either returns or throws. A throw keeps the state as it was at the throw:
  JavaScript does not undo what ran before.
\<close>

type_synonym outcome = "(js_error \<times> solar_system) + solar_system"

definition and_then :: "outcome \<Rightarrow> (solar_system \<Rightarrow> outcome) \<Rightarrow> outcome" where
  "and_then r f = (case r of Inl e \<Rightarrow> Inl e | Inr s \<Rightarrow> f s)"

text \<open>
  \<open>document.getElementById(id).addEventListener(ev, ...)\<close>: a missing element is
  \<open>null\<close>, and the call on it throws.
\<close>

definition addElementListener :: "string \<Rightarrow> string \<Rightarrow> solar_system \<Rightarrow> outcome" where
  "addElementListener i ev s =
     (if i \<in> document s then Inr (s\<lparr>listeners := listeners s @ [(i, ev)]\<rparr>)
      else Inl (TypeError i, s))"

definition setupUI :: "solar_system \<Rightarrow> outcome" where
  "setupUI s =
     (if ''infoPanel'' \<notin> document s \<or> ''closeInfoPanel'' \<notin> document s
      then Inr (s\<lparr>console := console s @ [''Info panel or close button not found in the DOM!'']\<rparr>)
      else
        and_then (addElementListener ''autoRotate'' ''click'' s) (\<lambda>s.
        and_then (addElementListener ''toggleOrbits'' ''click'' s) (\<lambda>s.
        and_then (addElementListener ''speedControl'' ''input'' s) (\<lambda>s.
        (let s = s\<lparr>mouse := Some (Num 0, Num 0)\<rparr>;
             s = s\<lparr>listeners := listeners s @ [(''window'', ''click'')]\<rparr>
         in Inr (s\<lparr>listeners := listeners s @ [(''closeInfoPanel'', ''click'')]\<rparr>))))))"

text \<open>
  The listeners that \<open>setupUI\<close> registers. The button's pause and play glyphs are
  written as words.
\<close>

definition autoRotate_click :: "solar_system \<Rightarrow> solar_system" where
  "autoRotate_click s =
     (let s = s\<lparr>controls := map_option (\<lambda>c. c\<lparr>autoRotate := \<not> autoRotate c\<rparr>) (controls s)\<rparr>
      in s\<lparr>textContent := (textContent s)(''autoRotate'' \<mapsto>
             Str (if (case controls s of Some c \<Rightarrow> autoRotate c | None \<Rightarrow> False)
                  then ''Pause Auto-Rotate'' else ''Play Auto-Rotate''))\<rparr>)"

definition toggleOrbits_click :: "solar_system \<Rightarrow> solar_system" where
  "toggleOrbits_click s =
     s\<lparr>planets := map (\<lambda>planet. planet\<lparr>orbit := (orbit planet)\<lparr>visible := \<not> visible (orbit planet)\<rparr>\<rparr>)
                      (planets s)\<rparr>"

definition speedControl_input :: "real \<Rightarrow> solar_system \<Rightarrow> solar_system" where
  "speedControl_input v s = s\<lparr>simulationSpeed := Some v\<rparr>"

definition closeInfoPanel_click :: "solar_system \<Rightarrow> solar_system" where
  "closeInfoPanel_click s = s\<lparr>panel_active := False\<rparr>"

definition setText :: "string \<Rightarrow> span_text \<Rightarrow> solar_system \<Rightarrow> outcome" where
  "setText i t s =
     (if i \<in> document s then Inr (s\<lparr>textContent := (textContent s)(i \<mapsto> t)\<rparr>)
      else Inl (TypeError i, s))"

definition showPlanetInfo :: "planet \<Rightarrow> solar_system \<Rightarrow> outcome" where
  "showPlanetInfo planet s =
     and_then (setText ''planetName'' (Str (name planet)) s) (\<lambda>s.
     and_then (setText ''planetRadius'' (Km (size planet * 12742)) s) (\<lambda>s.
     and_then (setText ''orbitalPeriod'' (EarthDays \<lfloor>distance planet * 10 + 1 / 2\<rfloor>) s) (\<lambda>s.
     and_then (setText ''sunDistance'' (MillionKm (distance planet * 149.6)) s) (\<lambda>s.
     Inr (s\<lparr>panel_active := True\<rparr>)))))"

text \<open>
  \<open>handlePlanetClick\<close>: the pointer in normalised device coordinates, the ray cast
  against the planet meshes only, and the info of the first intersection's planet.
  \<open>planets.find(p => p.mesh === object)\<close> is the planet at the index of the reference;
  an object that is no planet mesh finds \<open>undefined\<close>, on which \<open>showPlanetInfo\<close> throws.
\<close>

definition handlePlanetClick ::
    "real \<Rightarrow> real \<Rightarrow> (obj_ref \<Rightarrow> real list) \<Rightarrow> solar_system \<Rightarrow> outcome" where
  "handlePlanetClick clientX clientY hit s =
     (let s = s\<lparr>mouse := Some (pointer clientX clientY (innerWidth s) (innerHeight s))\<rparr>;
          intersects = intersectObjects hit (map RefPlanet [0..<length (planets s)])
      in case intersects of
           [] \<Rightarrow> Inr s
         | (d, obj) # _ \<Rightarrow>
             (case obj of
                RefPlanet i \<Rightarrow>
                  (if i < length (planets s) then showPlanetInfo (planets s ! i) s
                   else Inl (TypeError ''planet'', s))
              | _ \<Rightarrow> Inl (TypeError ''planet'', s)))"

text \<open>
  \<open>animate\<close>: the next frame is requested first, then every planet advances, the
  controls update and the scene is rendered. \<open>this.simulationSpeed || 1\<close>: the field is
  undefined until the slider moves, and then holds the slider's value, a non-empty
  numeric string, which is truthy whatever its number.
\<close>

definition animate_planet :: "real \<Rightarrow> planet \<Rightarrow> planet" where
  "animate_planet speed planet =
     (let a = angle planet + 0.005 * (10 / distance planet) * speed;
          m = mesh planet;
          m = m\<lparr>position := (position m)\<lparr>vx := cos a * distance planet\<rparr>\<rparr>;
          m = m\<lparr>position := (position m)\<lparr>vz := sin a * distance planet\<rparr>\<rparr>;
          m = m\<lparr>rotation := (rotation m)\<lparr>vy := vy (rotation m) + 0.02\<rparr>\<rparr>
      in planet\<lparr>angle := a, mesh := m\<rparr>)"

definition animate :: "solar_system \<Rightarrow> solar_system" where
  "animate s =
     (let s = s\<lparr>raf := raf s + 1\<rparr>;
          speed = (case simulationSpeed s of None \<Rightarrow> 1 | Some v \<Rightarrow> v);
          s = s\<lparr>planets := map (animate_planet speed) (planets s)\<rparr>;
          s = s\<lparr>controls_updates := controls_updates s + 1\<rparr>
      in s\<lparr>frames := frames s + 1\<rparr>)"

definition handleResize :: "solar_system \<Rightarrow> solar_system" where
  "handleResize s =
     (case (camera s, renderer s) of
        (Some c, Some r) \<Rightarrow>
          s\<lparr>camera := Some (c\<lparr>aspect := js_divide (innerWidth s) (innerHeight s)\<rparr>),
            renderer := Some (r\<lparr>width := innerWidth s, height := innerHeight s\<rparr>)\<rparr>
      | _ \<Rightarrow> s)"

text \<open>
  The constructor. A throw of \<open>setupUI\<close> leaves it at once; otherwise the first frame
  runs and the resize handler is registered last.
\<close>

definition SolarSystem :: "(nat \<Rightarrow> real) \<Rightarrow> solar_system \<Rightarrow> outcome" where
  "SolarSystem rnd s =
     (let s = initScene s;
          s = createCelestialBodies rnd s;
          s = setupControls s
      in and_then (setupUI s) (\<lambda>s.
           (let s = animate s
            in Inr (s\<lparr>listeners := listeners s @ [(''window'', ''resize'')]\<rparr>))))"

text \<open>
  The page's events. A listener runs only once it is registered; an exception that
  escapes a listener or the constructor is reported by the browser and the page goes on
  with the state left at the throw. \<open>Frame\<close> is the browser running a pending
  animation-frame callback; \<open>WindowResize\<close> gives the new size of the viewport.
\<close>

datatype event =
    Frame
  | WindowClick real real "obj_ref \<Rightarrow> real list"
  | AutoRotateClick
  | ToggleOrbitsClick
  | SpeedInput real
  | CloseClick
  | WindowResize real real

definition settle :: "outcome \<Rightarrow> solar_system" where
  "settle r = (case r of Inl (e, s) \<Rightarrow> s | Inr s \<Rightarrow> s)"

definition listening :: "string \<Rightarrow> string \<Rightarrow> solar_system \<Rightarrow> bool" where
  "listening tgt ev s = ((tgt, ev) \<in> set (listeners s))"

fun step :: "solar_system \<Rightarrow> event \<Rightarrow> solar_system" where
  "step s Frame = (if 0 < raf s then animate (s\<lparr>raf := raf s - 1\<rparr>) else s)"
| "step s (WindowClick x y hit) =
     (if listening ''window'' ''click'' s then settle (handlePlanetClick x y hit s) else s)"
| "step s AutoRotateClick =
     (if listening ''autoRotate'' ''click'' s then autoRotate_click s else s)"
| "step s ToggleOrbitsClick =
     (if listening ''toggleOrbits'' ''click'' s then toggleOrbits_click s else s)"
| "step s (SpeedInput v) =
     (if listening ''speedControl'' ''input'' s then speedControl_input v s else s)"
| "step s CloseClick =
     (if listening ''closeInfoPanel'' ''click'' s then closeInfoPanel_click s else s)"
| "step s (WindowResize w h) =
     (let s = s\<lparr>innerWidth := w, innerHeight := h\<rparr>
      in if listening ''window'' ''resize'' s then handleResize s else s)"

definition run :: "solar_system \<Rightarrow> event list \<Rightarrow> solar_system" where
  "run s es = foldl step s es"

text \<open>The \<open>load\<close> listener: \<open>new SolarSystem()\<close> on the page.\<close>

definition load :: "(nat \<Rightarrow> real) \<Rightarrow> solar_system \<Rightarrow> solar_system" where
  "load rnd pg = settle (SolarSystem rnd pg)"

section \<open>The inline script of the HTML page\<close>

text \<open>
  The page repeats the class (without the check of the anchors and without Saturn's
  rings) and registers its resize listener outside the class, at the top level of the
  script. The listener names \<open>camera\<close> and \<open>renderer\<close>, which it looks up among the
  global bindings of the page; \<open>globals_html\<close> lists those the page makes: the class,
  the library, and the elements that have an id, which a browser offers under their ids.
\<close>

definition globals_html :: "string list" where
  "globals_html = [''SolarSystem'', ''THREE'', ''ui'', ''autoRotate'', ''toggleOrbits'',
     ''speedControl'', ''infoPanel'', ''closeInfoPanel'', ''planetName'', ''planetRadius'',
     ''orbitalPeriod'', ''sunDistance'']"

definition resize_listener_html :: "solar_system \<Rightarrow> outcome" where
  "resize_listener_html s =
     (if ''camera'' \<notin> set globals_html then Inl (ReferenceError ''camera'', s)
      else if ''renderer'' \<notin> set globals_html then Inl (ReferenceError ''renderer'', s)
      else Inr (s\<lparr>camera := map_option (\<lambda>c. c\<lparr>aspect := js_divide (innerWidth s) (innerHeight s)\<rparr>) (camera s),
                  renderer := map_option (\<lambda>r. r\<lparr>width := innerWidth s, height := innerHeight s\<rparr>)
                                (renderer s)\<rparr>))"

section \<open>The ES module: lil-gui controls, hover tooltip and camera tweens\<close>

record planet_g =
  mesh_g :: mesh
  orbitRadius :: real
  orbitSpeed :: real
  rotationSpeed :: real
  orbit_g :: object3d
  timeScale :: real

record planet_data =
  d_radius :: real
  d_color :: nat
  d_distance :: real
  d_orbitSpeed :: real
  d_rotationSpeed :: real
  d_name :: string
  d_timeScale :: real

text \<open>
  A started tween of the camera position: where it leads, the reading of the clock at
  which \<open>start()\<close> was called, how long it takes, and the object its callbacks aim at
  (\<open>None\<close> is the centre of the scene).
\<close>

record tween =
  tw_to :: vector3
  tw_start :: real
  tw_duration :: real
  tw_aim :: "obj_ref option"

text \<open>
  The calls into three.js and tween.js that leave no other trace in the state, in the
  order they are made.
\<close>

datatype lib_call =
    TWEEN_update
  | Tween_start
  | Camera_lookAt
  | Raycaster_setFromCamera
  | Raycaster_intersectObjects
  | Controls_update
  | Renderer_render
  | LabelRenderer_render

text \<open>
  The state is the module's top-level bindings and the parts of the page it writes.
  \<open>TWEEN_g\<close> tells whether \<open>window.TWEEN\<close> was there when the module ran, which the
  module tests; the page is taken to have the three elements the module looks up.
  \<open>uncaught_g\<close> collects the exceptions that escaped a callback. \<open>clock_g\<close> is the
  reading of \<open>performance.now()\<close>, in milliseconds: a callback runs at one instant, and
  every read of the clock in it gives that reading. Where the library puts the camera
  (damping, the interpolation of a tween) is not modelled: \<open>cam_position\<close> stays the
  position the camera is created at, and the calls are recorded in \<open>calls\<close>.
\<close>

record module_state =
  innerWidth_g :: real
  innerHeight_g :: real
  gui_offsetWidth :: real
  clock_g :: real
  TWEEN_g :: bool
  uncaught_g :: "js_error list"
  calls :: "lib_call list"
  raf_g :: nat
  scene_g :: "obj_ref list"
  camera_g :: camera
  renderer_g :: renderer
  labelRenderer_g :: "real \<times> real"
  controls_g :: controls
  infoPanel_display :: string
  infoPanel_html :: "(string \<times> real) option"
  tooltip_text :: string
  tooltip_display :: string
  tooltip_left :: real
  tooltip_top :: real
  resetButton_right :: real
  mouse_g :: "js_number \<times> js_number"
  INTERSECTED :: "obj_ref option"
  sun_g :: planet_g
  planets_g :: "planet_g list"
  params_timeScale :: real
  params_showOrbits :: bool
  params_pause :: bool
  tweens :: "tween list"

text \<open>
  \<open>createPlanet\<close>: the sphere at (x, y, z) with its name, the orbit ring (a line of
  radius \<open>orbitRadius\<close> plus or minus 0.1) added to the scene, and the label as a child
  of the sphere. \<open>oref\<close> is the reference the new orbit ring gets.
\<close>

definition createPlanet ::
    "obj_ref \<Rightarrow> real \<Rightarrow> nat \<Rightarrow> real \<Rightarrow> real \<Rightarrow> real \<Rightarrow> real \<Rightarrow> real \<Rightarrow> real \<Rightarrow> string \<Rightarrow> real
       \<Rightarrow> module_state \<Rightarrow> planet_g \<times> module_state" where
  "createPlanet oref radius color' x y z orbitRadius' orbitSpeed' rotationSpeed' name' timeScale' s =
     (let planet0 = Mesh (SphereGeometry radius);
          planet1 = planet0\<lparr>position := Vector3 x y z\<rparr>;
          planet2 = planet1\<lparr>obj_name := name'\<rparr>;
          orbit0 = (Object3D ''Line'' (RingGeometry (orbitRadius' - 0.1) (orbitRadius' + 0.1)))
                     \<lparr>rotation := Vector3 (pi / 2) 0 0\<rparr>;
          s = s\<lparr>scene_g := scene_g s @ [oref]\<rparr>;
          planetLabel = (Object3D ''Object3D'' (Css2dDiv name'))
                     \<lparr>position := Vector3 0 (radius + 1) 0\<rparr>;
          planet3 = planet2\<lparr>children := children planet2 @ [planetLabel]\<rparr>
      in (\<lparr>mesh_g = planet3, orbitRadius = orbitRadius', orbitSpeed = orbitSpeed',
            rotationSpeed = rotationSpeed', orbit_g = orbit0, timeScale = timeScale'\<rparr>, s))"

definition planetData :: "planet_data list" where
  "planetData =
     [\<lparr>d_radius = 0.8, d_color = 0xaaaaaa, d_distance = 15, d_orbitSpeed = 0.02,
        d_rotationSpeed = 0.005, d_name = ''Mercury'', d_timeScale = 1.0\<rparr>,
      \<lparr>d_radius = 1.2, d_color = 0xffa500, d_distance = 25, d_orbitSpeed = 0.015,
        d_rotationSpeed = 0.002, d_name = ''Venus'', d_timeScale = 1.0\<rparr>,
      \<lparr>d_radius = 1.3, d_color = 0x0000ff, d_distance = 35, d_orbitSpeed = 0.01,
        d_rotationSpeed = 0.02, d_name = ''Earth'', d_timeScale = 1.0\<rparr>,
      \<lparr>d_radius = 0.9, d_color = 0xff0000, d_distance = 45, d_orbitSpeed = 0.008,
        d_rotationSpeed = 0.018, d_name = ''Mars'', d_timeScale = 1.0\<rparr>,
      \<lparr>d_radius = 3, d_color = 0xff8c00, d_distance = 70, d_orbitSpeed = 0.004,
        d_rotationSpeed = 0.04, d_name = ''Jupiter'', d_timeScale = 1.0\<rparr>,
      \<lparr>d_radius = 2.5, d_color = 0xc2b280, d_distance = 100, d_orbitSpeed = 0.002,
        d_rotationSpeed = 0.035, d_name = ''Saturn'', d_timeScale = 1.0\<rparr>,
      \<lparr>d_radius = 1.8, d_color = 0xadd8e6, d_distance = 120, d_orbitSpeed = 0.0015,
        d_rotationSpeed = 0.025, d_name = ''Uranus'', d_timeScale = 1.0\<rparr>,
      \<lparr>d_radius = 1.7, d_color = 0x00008b, d_distance = 140, d_orbitSpeed = 0.001,
        d_rotationSpeed = 0.022, d_name = ''Neptune'', d_timeScale = 1.0\<rparr>]"

text \<open>
  The callback of \<open>planetData.map\<close>, threaded through the table: the planet is created
  (its orbit ring joins the scene), its mesh joins the scene, and the planet is appended.
\<close>

fun create_planets :: "nat \<Rightarrow> planet_data list \<Rightarrow> module_state \<Rightarrow> module_state" where
  "create_planets i [] s = s"
| "create_planets i (data # rest) s =
     (let (planet, s) = createPlanet (RefOrbit i) (d_radius data) (d_color data)
                          (d_distance data) 0 0 (d_distance data) (d_orbitSpeed data)
                          (d_rotationSpeed data) (d_name data) (d_timeScale data) s;
          s = s\<lparr>scene_g := scene_g s @ [RefPlanet i]\<rparr>
      in create_planets (Suc i) rest (s\<lparr>planets_g := planets_g s @ [planet]\<rparr>))"

definition positionResetButton :: "module_state \<Rightarrow> module_state" where
  "positionResetButton s = s\<lparr>resetButton_right := gui_offsetWidth s + 10\<rparr>"

text \<open>
  The top level of the module up to the registration of the listeners, on a window of
  size \<open>w\<close> by \<open>h\<close>; \<open>gw\<close> is the width the panel of lil-gui takes and \<open>tw\<close> whether
  \<open>window.TWEEN\<close> exists. The binding \<open>sun\<close> holds a blank record until the call of
  \<open>createPlanet\<close> for the sun assigns it. Nothing here reads the clock, which stands
  at 0 until the first call of \<open>animate\<close> gives its reading.
\<close>

definition module_setup :: "real \<Rightarrow> real \<Rightarrow> real \<Rightarrow> bool \<Rightarrow> module_state" where
  "module_setup w h gw tw =
     (let s0 = \<lparr>innerWidth_g = w, innerHeight_g = h, gui_offsetWidth = gw, clock_g = 0,
                TWEEN_g = tw,
                uncaught_g = [], calls = [], raf_g = 0, scene_g = [],
                camera_g = \<lparr>fov = 75, aspect = js_divide w h, near = 0.1, far = 10000,
                            cam_position = Vector3 0 50 150\<rparr>,
                renderer_g = \<lparr>width = w, height = h, pixelRatio = 1\<rparr>,
                labelRenderer_g = (w, h),
                controls_g = \<lparr>enableDamping = True, dampingFactor = 0.1, minDistance = 5,
                              maxDistance = 5000, autoRotate = False, autoRotateSpeed = 2,
                              rotateSpeed = 0.5, enabled = True, target = Vector3 0 0 0\<rparr>,
                infoPanel_display = [], infoPanel_html = None,
                tooltip_text = [], tooltip_display = [], tooltip_left = 0, tooltip_top = 0,
                resetButton_right = 0, mouse_g = (Num 0, Num 0), INTERSECTED = None,
                sun_g = \<lparr>mesh_g = Mesh NoGeometry, orbitRadius = 0, orbitSpeed = 0,
                         rotationSpeed = 0, orbit_g = Object3D [] NoGeometry, timeScale = 0\<rparr>,
                planets_g = [], params_timeScale = 1, params_showOrbits = True,
                params_pause = False, tweens = []\<rparr>;
          s1 = s0\<lparr>scene_g := scene_g s0 @ [RefAmbientLight]\<rparr>;
          s2 = s1\<lparr>scene_g := scene_g s1 @ [RefSunLight]\<rparr>;
          (sun', s3) = createPlanet RefSunOrbit 5 0xffff00 0 0 0 0 0 0.01 ''Sun'' 1.0 s2;
          s4 = s3\<lparr>sun_g := sun', scene_g := scene_g s3 @ [RefSun]\<rparr>;
          s5 = create_planets 0 planetData s4
      in positionResetButton s5)"

text \<open>
  The lil-gui controllers. A slider keeps its value within its bounds; a checkbox flips
  the parameter and hands the new value to the controller's \<open>onChange\<close>; after any
  change the panel calls \<open>positionResetButton\<close>.
\<close>

definition clamp :: "real \<Rightarrow> real \<Rightarrow> real \<Rightarrow> real" where
  "clamp lo hi v = max lo (min hi v)"

definition gui_timeScale :: "real \<Rightarrow> module_state \<Rightarrow> module_state" where
  "gui_timeScale v s = positionResetButton (s\<lparr>params_timeScale := clamp 0.1 50 v\<rparr>)"

definition showOrbits_onChange :: "bool \<Rightarrow> module_state \<Rightarrow> module_state" where
  "showOrbits_onChange value s =
     s\<lparr>planets_g := map (\<lambda>planet. planet\<lparr>orbit_g := (orbit_g planet)\<lparr>visible := value\<rparr>\<rparr>)
                        (planets_g s)\<rparr>"

definition gui_showOrbits :: "module_state \<Rightarrow> module_state" where
  "gui_showOrbits s =
     (let value = \<not> params_showOrbits s;
          s = s\<lparr>params_showOrbits := value\<rparr>;
          s = showOrbits_onChange value s
      in positionResetButton s)"

definition gui_pause :: "module_state \<Rightarrow> module_state" where
  "gui_pause s = positionResetButton (s\<lparr>params_pause := \<not> params_pause s\<rparr>)"

definition gui_planet_timeScale :: "nat \<Rightarrow> real \<Rightarrow> module_state \<Rightarrow> module_state" where
  "gui_planet_timeScale i v s =
     (if i < length (planets_g s)
      then positionResetButton
             (s\<lparr>planets_g := (planets_g s)[i := (planets_g s ! i)\<lparr>timeScale := clamp 0.1 5 v\<rparr>]\<rparr>)
      else s)"

definition onMouseMove :: "real \<Rightarrow> real \<Rightarrow> module_state \<Rightarrow> module_state" where
  "onMouseMove clientX clientY s =
     s\<lparr>mouse_g := pointer clientX clientY (innerWidth_g s) (innerHeight_g s),
       tooltip_left := clientX + 10,
       tooltip_top := clientY - 25\<rparr>"

text \<open>
  The planet meshes with all their descendants, as the recursive ray cast visits them.
\<close>

definition pickable_g :: "module_state \<Rightarrow> obj_ref list" where
  "pickable_g s = concat (map (\<lambda>i. [RefPlanet i, RefLabel i]) [0..<length (planets_g s)])"

text \<open>
  \<open>focusOnPlanet\<close>, for the mesh of planet \<open>i\<close>: the controls are disabled, a tween of
  the camera towards the planet is started, and the controls aim at the planet.
  Without \<open>TWEEN\<close> the constructor call throws, after the controls were disabled.
  The mesh of a planet is always a sphere; for any other geometry, which does not
  arise, the radius is read as 0.
\<close>

definition focusOnPlanet :: "nat \<Rightarrow> module_state \<Rightarrow> (js_error \<times> module_state) + module_state" where
  "focusOnPlanet i s =
     (let planet = mesh_g (planets_g s ! i);
          s = s\<lparr>controls_g := (controls_g s)\<lparr>enabled := False\<rparr>\<rparr>;
          targetPosition = position planet;
          r = (case geometry planet of SphereGeometry r \<Rightarrow> r | _ \<Rightarrow> 0);
          cameraTargetPosition = Vector3 (vx targetPosition + r * 2.5)
                                   (vy targetPosition + r * 1.5) (vz targetPosition + r * 2.5)
      in if \<not> TWEEN_g s then Inl (TypeError ''TWEEN'', s)
         else
           (let s = s\<lparr>tweens := tweens s @ [\<lparr>tw_to = cameraTargetPosition,
                                               tw_start = clock_g s, tw_duration = 1000,
                                               tw_aim = Some (RefPlanet i)\<rparr>],
                      calls := calls s @ [Tween_start]\<rparr>;
                s = s\<lparr>controls_g := (controls_g s)\<lparr>target := targetPosition\<rparr>\<rparr>
            in Inr (s\<lparr>calls := calls s @ [Controls_update]\<rparr>)))"

text \<open>
  \<open>onMouseClick\<close>: the first intersection's object is focused and shown in the info
  panel (its name and its radius); without an intersection the panel is hidden. An
  object without a sphere geometry has no radius to read, and the read throws.
\<close>

definition onMouseClick ::
    "real \<Rightarrow> real \<Rightarrow> (obj_ref \<Rightarrow> real list) \<Rightarrow> module_state \<Rightarrow> (js_error \<times> module_state) + module_state" where
  "onMouseClick clientX clientY hit s =
     (let s = s\<lparr>mouse_g := pointer clientX clientY (innerWidth_g s) (innerHeight_g s)\<rparr>;
          s = s\<lparr>calls := calls s @ [Raycaster_setFromCamera]\<rparr>;
          intersects = intersectObjects hit (pickable_g s);
          s = s\<lparr>calls := calls s @ [Raycaster_intersectObjects]\<rparr>
      in case intersects of
           [] \<Rightarrow> Inr (s\<lparr>infoPanel_display := ''none''\<rparr>)
         | (d, obj) # _ \<Rightarrow>
             (case obj of
                RefPlanet i \<Rightarrow>
                  (if i < length (planets_g s) then
                     (case focusOnPlanet i s of
                        Inl e \<Rightarrow> Inl e
                      | Inr s \<Rightarrow>
                          (let selectedPlanet = mesh_g (planets_g s ! i);
                               s = s\<lparr>infoPanel_display := ''block''\<rparr>
                           in Inr (s\<lparr>infoPanel_html := Some (obj_name selectedPlanet,
                                 (case geometry selectedPlanet of SphereGeometry r \<Rightarrow> r | _ \<Rightarrow> 0))\<rparr>)))
                   else Inl (TypeError ''geometry'', s))
              | _ \<Rightarrow> Inl (TypeError ''geometry'', s\<lparr>controls_g := (controls_g s)\<lparr>enabled := False\<rparr>\<rparr>)))"

definition resetCamera :: "module_state \<Rightarrow> (js_error \<times> module_state) + module_state" where
  "resetCamera s =
     (if \<not> TWEEN_g s then Inl (TypeError ''TWEEN'', s)
      else
        (let s = s\<lparr>tweens := tweens s @ [\<lparr>tw_to = Vector3 0 50 150, tw_start = clock_g s,
                                            tw_duration = 1000, tw_aim = None\<rparr>],
                   calls := calls s @ [Tween_start]\<rparr>
         in Inr (s\<lparr>infoPanel_display := ''none''\<rparr>)))"

text \<open>
  The \<open>onComplete\<close> callback of a tween, which the library calls when the tween ends:
  the controls aim at where the tween's object is by then, and are enabled again.
  The \<open>onUpdate\<close> callback turns the camera towards that object: a call of
  \<open>camera.lookAt\<close>, recorded.
\<close>

definition tween_onComplete :: "tween \<Rightarrow> module_state \<Rightarrow> module_state" where
  "tween_onComplete tw s =
     (let p = (case tw_aim tw of
                 Some (RefPlanet i) \<Rightarrow> position (mesh_g (planets_g s ! i))
               | _ \<Rightarrow> Vector3 0 0 0);
          s = s\<lparr>controls_g := (controls_g s)\<lparr>target := p\<rparr>\<rparr>;
          s = s\<lparr>calls := calls s @ [Controls_update]\<rparr>
      in s\<lparr>controls_g := (controls_g s)\<lparr>enabled := True\<rparr>\<rparr>)"

definition tween_onUpdate :: "tween \<Rightarrow> module_state \<Rightarrow> module_state" where
  "tween_onUpdate tw s = s\<lparr>calls := calls s @ [Camera_lookAt]\<rparr>"

text \<open>
  \<open>TWEEN.update()\<close> of tween.js, at the reading \<open>time'\<close> of the clock. It visits the
  started tweens in the order they were started. A tween whose start lies ahead is left
  alone. Any other tween is advanced and its \<open>onUpdate\<close> is called; when its duration
  has elapsed its \<open>onComplete\<close> is called as well and the tween is forgotten. All of
  this runs inside the call, before \<open>TWEEN.update()\<close> returns. The result of
  \<open>tween_update\<close> tells whether the tween goes on.
\<close>

definition tween_update :: "real \<Rightarrow> tween \<Rightarrow> module_state \<Rightarrow> bool \<times> module_state" where
  "tween_update time' tw s =
     (if time' < tw_start tw then (True, s)
      else
        (let s = tween_onUpdate tw s
         in if tw_duration tw = 0 \<or> tw_duration tw \<le> time' - tw_start tw
            then (False, tween_onComplete tw s)
            else (True, s)))"

fun group_update :: "real \<Rightarrow> tween list \<Rightarrow> module_state \<Rightarrow> tween list \<times> module_state" where
  "group_update time' [] s = ([], s)"
| "group_update time' (tw # tws) s =
     (let (playing, s) = tween_update time' tw s;
          (rest, s) = group_update time' tws s
      in (if playing then tw # rest else rest, s))"

definition TWEEN_update_call :: "module_state \<Rightarrow> module_state" where
  "TWEEN_update_call s =
     (let s = s\<lparr>calls := calls s @ [TWEEN_update]\<rparr>;
          (playing, s) = group_update (clock_g s) (tweens s) s
      in s\<lparr>tweens := playing\<rparr>)"

text \<open>
  \<open>animate\<close> of the module, run when the clock reads \<open>now\<close> (\<open>performance.now()\<close>, in
  milliseconds). The next frame is requested, the tweens advance and their callbacks
  run, and unless the simulation is paused every planet is placed at the angle the clock
  gives and turned; then, paused or not, the hover check, the update of the controls and
  the two renders.
\<close>

definition place_planet :: "real \<Rightarrow> real \<Rightarrow> planet_g \<Rightarrow> planet_g" where
  "place_planet time' gts planet =
     (let angle' = time' * orbitSpeed planet * gts * timeScale planet;
          m = mesh_g planet;
          m = m\<lparr>position := (position m)\<lparr>vx := cos angle' * orbitRadius planet\<rparr>\<rparr>;
          m = m\<lparr>position := (position m)\<lparr>vz := sin angle' * orbitRadius planet\<rparr>\<rparr>;
          m = m\<lparr>rotation := (rotation m)\<lparr>vy := vy (rotation m) + rotationSpeed planet\<rparr>\<rparr>
      in planet\<lparr>mesh_g := m\<rparr>)"

definition spin :: "planet_g \<Rightarrow> planet_g" where
  "spin planet =
     planet\<lparr>mesh_g := (mesh_g planet)\<lparr>rotation := (rotation (mesh_g planet))
        \<lparr>vy := vy (rotation (mesh_g planet)) + rotationSpeed planet\<rparr>\<rparr>\<rparr>"

definition hover_check :: "(obj_ref \<Rightarrow> real list) \<Rightarrow> module_state \<Rightarrow> module_state" where
  "hover_check hit s =
     (let s = s\<lparr>calls := calls s @ [Raycaster_setFromCamera]\<rparr>;
          intersects = intersectObjects hit (pickable_g s);
          s = s\<lparr>calls := calls s @ [Raycaster_intersectObjects]\<rparr>
      in case intersects of
           [] \<Rightarrow> s\<lparr>tooltip_display := ''none'', INTERSECTED := None\<rparr>
         | (d, obj) # _ \<Rightarrow>
             (if INTERSECTED s \<noteq> Some obj
              then s\<lparr>INTERSECTED := Some obj,
                     tooltip_text := (case obj of
                                        RefPlanet i \<Rightarrow> obj_name (mesh_g (planets_g s ! i))
                                      | _ \<Rightarrow> []),
                     tooltip_display := ''block''\<rparr>
              else s))"

definition animate_g :: "real \<Rightarrow> (obj_ref \<Rightarrow> real list) \<Rightarrow> module_state \<Rightarrow> module_state" where
  "animate_g now hit s =
     (let s = s\<lparr>clock_g := now\<rparr>;
          s = s\<lparr>raf_g := raf_g s + 1\<rparr>
      in if \<not> TWEEN_g s then s\<lparr>uncaught_g := uncaught_g s @ [TypeError ''TWEEN'']\<rparr>
         else
           (let s = TWEEN_update_call s;
                s = (if \<not> params_pause s then
                       (let time' = clock_g s * 0.001;
                            s = s\<lparr>planets_g := map (place_planet time' (params_timeScale s))
                                                    (planets_g s)\<rparr>
                        in s\<lparr>sun_g := spin (sun_g s)\<rparr>)
                     else s);
                s = hover_check hit s;
                s = s\<lparr>calls := calls s @ [Controls_update]\<rparr>;
                s = s\<lparr>calls := calls s @ [Renderer_render]\<rparr>
            in s\<lparr>calls := calls s @ [LabelRenderer_render]\<rparr>))"

definition resize_g :: "module_state \<Rightarrow> module_state" where
  "resize_g s =
     (let s = s\<lparr>camera_g := (camera_g s)\<lparr>aspect := js_divide (innerWidth_g s) (innerHeight_g s)\<rparr>\<rparr>;
          s = s\<lparr>renderer_g := (renderer_g s)\<lparr>width := innerWidth_g s, height := innerHeight_g s\<rparr>\<rparr>
      in s\<lparr>labelRenderer_g := (innerWidth_g s, innerHeight_g s)\<rparr>)"

text \<open>
  The events of the module's page, and the module run from its first line. \<open>Frame_g\<close>
  carries the reading of the clock at which the frame runs; \<open>TimePasses\<close> moves the
  clock between the events, so that a click reads it at any instant.
\<close>

datatype event_g =
    Frame_g real "obj_ref \<Rightarrow> real list"
  | MouseMove real real
  | MouseClick real real "obj_ref \<Rightarrow> real list"
  | ResetClick
  | GuiTimeScale real
  | GuiShowOrbits
  | GuiPause
  | GuiPlanetTimeScale nat real
  | Resize_g real real
  | TimePasses real

definition settle_g :: "(js_error \<times> module_state) + module_state \<Rightarrow> module_state" where
  "settle_g r = (case r of Inl (e, s) \<Rightarrow> s\<lparr>uncaught_g := uncaught_g s @ [e]\<rparr> | Inr s \<Rightarrow> s)"

fun step_g :: "module_state \<Rightarrow> event_g \<Rightarrow> module_state" where
  "step_g s (Frame_g now hit) =
     (if 0 < raf_g s then animate_g now hit (s\<lparr>raf_g := raf_g s - 1\<rparr>) else s)"
| "step_g s (MouseMove x y) = onMouseMove x y s"
| "step_g s (MouseClick x y hit) = settle_g (onMouseClick x y hit s)"
| "step_g s ResetClick = settle_g (resetCamera s)"
| "step_g s (GuiTimeScale v) = gui_timeScale v s"
| "step_g s GuiShowOrbits = gui_showOrbits s"
| "step_g s GuiPause = gui_pause s"
| "step_g s (GuiPlanetTimeScale i v) = gui_planet_timeScale i v s"
| "step_g s (Resize_g w h) =
     resize_g (positionResetButton (s\<lparr>innerWidth_g := w, innerHeight_g := h\<rparr>))"
| "step_g s (TimePasses t) = s\<lparr>clock_g := t\<rparr>"

definition run_g :: "module_state \<Rightarrow> event_g list \<Rightarrow> module_state" where
  "run_g s es = foldl step_g s es"

definition module_main ::
    "real \<Rightarrow> real \<Rightarrow> real \<Rightarrow> bool \<Rightarrow> real \<Rightarrow> (obj_ref \<Rightarrow> real list) \<Rightarrow> module_state" where
  "module_main w h gw tw now hit = animate_g now hit (module_setup w h gw tw)"

section \<open>Vocabulary of the properties\<close>

text \<open>
  \<open>built\<close> is the state in which the constructor calls \<open>setupUI\<close>, and \<open>all_ids\<close> the
  ids of a page that has every element \<open>script.js\<close> looks up.
\<close>

definition built :: "(nat \<Rightarrow> real) \<Rightarrow> solar_system \<Rightarrow> solar_system" where
  "built rnd pg = setupControls (createCelestialBodies rnd (initScene pg))"

definition all_ids :: "string set" where
  "all_ids = {''infoPanel'', ''closeInfoPanel'', ''autoRotate'', ''toggleOrbits'',
     ''speedControl'', ''planetName'', ''planetRadius'', ''orbitalPeriod'', ''sunDistance''}"

text \<open>
  The kinds of visuals of a scene, read off the references: the body visuals are the
  planet meshes, the orbit-path visuals the orbit rings (the ring the module makes for
  the sun among them), the sun visual the sun's mesh. \<open>outer_radius\<close> reads the outer
  radius of a ring, \<open>sphere_radius\<close> the radius of a sphere.
\<close>

definition is_body_visual :: "obj_ref \<Rightarrow> bool" where
  "is_body_visual r = (case r of RefPlanet i \<Rightarrow> True | _ \<Rightarrow> False)"

definition is_orbit_visual :: "obj_ref \<Rightarrow> bool" where
  "is_orbit_visual r = (case r of RefOrbit i \<Rightarrow> True | RefSunOrbit \<Rightarrow> True | _ \<Rightarrow> False)"

definition is_sun_visual :: "obj_ref \<Rightarrow> bool" where
  "is_sun_visual r = (r = RefSun)"

fun outer_radius :: "geometry \<Rightarrow> real" where
  "outer_radius (RingGeometry inner outer) = outer"
| "outer_radius g = 0"

definition sphere_radius :: "geometry \<Rightarrow> real" where
  "sphere_radius g = (case g of SphereGeometry r \<Rightarrow> r | _ \<Rightarrow> 0)"

text \<open>
  The specification's wrapping of an angle modulo \<open>2\<pi>\<close>, into the interval from 0 to
  \<open>2\<pi>\<close>. No function of the sources computes it.
\<close>

definition spec_wrap_2pi :: "real \<Rightarrow> real" where
  "spec_wrap_2pi a = a - 2 * pi * of_int \<lfloor>a / (2 * pi)\<rfloor>"

text \<open>A planet lies on the circle of its orbital distance, in the plane of x and z.\<close>

definition on_circle :: "planet \<Rightarrow> bool" where
  "on_circle p = ((vx (position (mesh p)))\<^sup>2 + (vz (position (mesh p)))\<^sup>2 = (distance p)\<^sup>2)"

definition on_circle_g :: "planet_g \<Rightarrow> bool" where
  "on_circle_g q = ((vx (position (mesh_g q)))\<^sup>2 + (vz (position (mesh_g q)))\<^sup>2 = (orbitRadius q)\<^sup>2)"

text \<open>The orbit rings of a list of planets are all visible or all hidden.\<close>

definition orbits_agree :: "planet list \<Rightarrow> bool" where
  "orbits_agree ps = ((\<forall>p \<in> set ps. visible (orbit p)) \<or> (\<forall>p \<in> set ps. \<not> visible (orbit p)))"

text \<open>
  Among the first \<open>n\<close> planets, the ray meets planet \<open>i\<close> at distance \<open>d\<close>, and meets
  no planet at a smaller distance.
\<close>

definition nearest_planet :: "(obj_ref \<Rightarrow> real list) \<Rightarrow> nat \<Rightarrow> nat \<Rightarrow> real \<Rightarrow> bool" where
  "nearest_planet hit n i d =
     (i < n \<and> d \<in> set (hit (RefPlanet i)) \<and>
      (\<forall>j < n. \<forall>d' \<in> set (hit (RefPlanet j)). d \<le> d'))"

text \<open>
  What \<open>createPlanet\<close> returns for a row of \<open>planetData\<close>, written out: the sphere at
  (distance, 0, 0) with its label, and the ring around the distance.
\<close>

definition new_planet :: "planet_data \<Rightarrow> planet_g" where
  "new_planet data =
     \<lparr>mesh_g = \<lparr>obj_type = ''Mesh'', obj_name = d_name data,
                 geometry = SphereGeometry (d_radius data),
                 position = Vector3 (d_distance data) 0 0, rotation = Vector3 0 0 0,
                 visible = True,
                 children = [(Object3D ''Object3D'' (Css2dDiv (d_name data)))
                               \<lparr>position := Vector3 0 (d_radius data + 1) 0\<rparr>]\<rparr>,
      orbitRadius = d_distance data, orbitSpeed = d_orbitSpeed data,
      rotationSpeed = d_rotationSpeed data,
      orbit_g = (Object3D ''Line'' (RingGeometry (d_distance data - 0.1) (d_distance data + 0.1)))
                  \<lparr>rotation := Vector3 (pi / 2) 0 0\<rparr>,
      timeScale = d_timeScale data\<rparr>"

text \<open>
  The planets carry the names of their table, and the name the info panel shows, if
  any, is one of them.
\<close>

definition shows_planet :: "solar_system \<Rightarrow> bool" where
  "shows_planet s =
     (map name (planets s) = map name planet_table \<and>
      textContent s ''planetName'' \<in> insert None ((\<lambda>n. Some (Str n)) ` set (map name planet_table)))"

definition shows_planet_g :: "module_state \<Rightarrow> bool" where
  "shows_planet_g s =
     (map (\<lambda>q. obj_name (mesh_g q)) (planets_g s) = map d_name planetData \<and>
      map_option fst (infoPanel_html s) \<in> insert None (Some ` set (map d_name planetData)))"

text \<open>
  A tween has ended at the reading \<open>t\<close> of the clock when its start does not lie ahead
  and its duration is 0 or has gone by. \<open>tween_calls\<close> lists the calls the callbacks of
  the tweens make during one \<open>TWEEN.update()\<close> at \<open>t\<close>, tween by tween: none for a
  tween whose start lies ahead, \<open>camera.lookAt\<close> from \<open>onUpdate\<close>, and after it
  \<open>controls.update\<close> from \<open>onComplete\<close> for a tween that has ended.
\<close>

definition tween_ended :: "real \<Rightarrow> tween \<Rightarrow> bool" where
  "tween_ended t tw =
     (tw_start tw \<le> t \<and> (tw_duration tw = 0 \<or> tw_duration tw \<le> t - tw_start tw))"

definition tween_calls :: "real \<Rightarrow> tween list \<Rightarrow> lib_call list" where
  "tween_calls t tws =
     concat (map (\<lambda>tw. if t < tw_start tw then []
                        else if tween_ended t tw then [Camera_lookAt, Controls_update]
                        else [Camera_lookAt]) tws)"

section \<open>Lemmas on script.js\<close>

lemma planets_animate:
  "planets (animate s) = map (animate_planet (case simulationSpeed s of None \<Rightarrow> 1 | Some v \<Rightarrow> v)) (planets s)"
  by (simp add: animate_def Let_def)

lemma simulationSpeed_animate: "simulationSpeed (animate s) = simulationSpeed s"
  by (simp add: animate_def Let_def)

lemma angle_animate_planet:
  "angle (animate_planet sp p) = angle p + 0.005 * (10 / distance p) * sp"
  by (simp add: animate_planet_def Let_def)

lemma distance_animate_planet: "distance (animate_planet sp p) = distance p"
  by (simp add: animate_planet_def Let_def)

lemma circle_point: "(cos a * d)\<^sup>2 + (sin a * d)\<^sup>2 = (d::real)\<^sup>2"
proof -
  have "(cos a * d)\<^sup>2 + (sin a * d)\<^sup>2 = (sin a)\<^sup>2 * d\<^sup>2 + (cos a)\<^sup>2 * d\<^sup>2"
    by (simp only: power_mult_distrib add.commute)
  also have "\<dots> = ((sin a)\<^sup>2 + (cos a)\<^sup>2) * d\<^sup>2"
    by (simp only: distrib_right)
  also have "\<dots> = d\<^sup>2"
    by (simp only: sin_cos_squared_add mult_1)
  finally show ?thesis .
qed

lemma position_animate_planet:
  "vx (position (mesh (animate_planet sp p))) = cos (angle (animate_planet sp p)) * distance p"
  "vz (position (mesh (animate_planet sp p))) = sin (angle (animate_planet sp p)) * distance p"
  by (simp_all add: animate_planet_def Let_def)

lemma on_circle_animate_planet:
  "(vx (position (mesh (animate_planet sp p))))\<^sup>2 + (vz (position (mesh (animate_planet sp p))))\<^sup>2
     = (distance (animate_planet sp p))\<^sup>2"
  by (simp only: position_animate_planet circle_point distance_animate_planet)

lemma funpow_animate_planet:
  "distance ((animate_planet sp ^^ N) p) = distance p \<and>
   angle ((animate_planet sp ^^ N) p) = angle p + real N * (0.005 * (10 / distance p) * sp)"
proof (induction N)
  case 0
  show ?case by simp
next
  case (Suc N)
  define c where "c = 0.005 * (10 / distance p) * sp"
  have d: "distance ((animate_planet sp ^^ N) p) = distance p"
    and a: "angle ((animate_planet sp ^^ N) p) = angle p + real N * c"
    using Suc by (simp_all only: c_def)
  have "angle ((animate_planet sp ^^ Suc N) p) = angle ((animate_planet sp ^^ N) p) + c"
    by (simp only: funpow.simps o_apply angle_animate_planet d c_def)
  also have "\<dots> = angle p + real (Suc N) * c"
    by (simp add: a distrib_right)
  finally have "angle ((animate_planet sp ^^ Suc N) p) = angle p + real (Suc N) * c" .
  moreover have "distance ((animate_planet sp ^^ Suc N) p) = distance p"
    by (simp add: distance_animate_planet d)
  ultimately show ?case by (simp only: c_def)
qed

lemma funpow_animate:
  "simulationSpeed ((animate ^^ N) s) = simulationSpeed s \<and>
   planets ((animate ^^ N) s) =
     map (animate_planet (case simulationSpeed s of None \<Rightarrow> 1 | Some v \<Rightarrow> v) ^^ N) (planets s)"
proof (induction N)
  case 0
  show ?case by simp
next
  case (Suc N)
  then show ?case
    by (simp add: planets_animate simulationSpeed_animate)
qed

lemma filter_refs:
  "filter is_body_visual (map RefPlanet xs) = map RefPlanet xs"
  "filter is_body_visual (map RefOrbit xs) = []"
  "filter is_orbit_visual (map RefOrbit xs) = map RefOrbit xs"
  "filter is_orbit_visual (map RefPlanet xs) = []"
  "filter is_sun_visual (map RefOrbit xs) = []"
  "filter is_sun_visual (map RefPlanet xs) = []"
  by (induction xs) (simp_all add: is_body_visual_def is_orbit_visual_def is_sun_visual_def)

lemma scene_built:
  "scene (createCelestialBodies rnd (initScene pg)) =
     [RefStarField, RefSun] @ map RefOrbit [0..<length planet_table]
       @ map RefPlanet [0..<length planet_table] @ [RefAmbientLight]"
  by (simp add: createCelestialBodies_def initScene_def Let_def)

lemma planets_built:
  "planets (createCelestialBodies rnd s) =
     map (\<lambda>(i, config). make_planet config (rnd i)) (enumerate 0 planet_table)"
  by (simp add: createCelestialBodies_def Let_def)

lemma length_planet_table: "length planet_table = 8"
  by (simp add: planet_table_def)

lemma make_planet_fields:
  "distance (make_planet c r) = distance c"
  "name (make_planet c r) = name c"
  "size (make_planet c r) = size c"
  "angle (make_planet c r) = r * pi * 2"
  "geometry (orbit (make_planet c r)) = RingGeometry (distance c - 0.1) (distance c)"
  "visible (orbit (make_planet c r)) = True"
  "geometry (mesh (make_planet c r)) = SphereGeometry (size c)"
  "visible (mesh (make_planet c r)) = True"
  by (simp_all add: make_planet_def Let_def Object3D_def Mesh_def)

lemma set_intersectObjects:
  "set (intersectObjects hit objects) = {(d, r). r \<in> set objects \<and> d \<in> set (raycast hit r)}"
  by (auto simp: intersectObjects_def)

lemma sorted_intersectObjects: "sorted (map fst (intersectObjects hit objects))"
  by (simp add: intersectObjects_def)

lemma intersectObjects_first:
  assumes "intersectObjects hit objects = (d, r) # rest"
  shows "r \<in> set objects" and "d \<in> set (raycast hit r)"
    and "\<And>r' d'. r' \<in> set objects \<Longrightarrow> d' \<in> set (raycast hit r') \<Longrightarrow> d \<le> d'"
proof -
  have "(d, r) \<in> set (intersectObjects hit objects)"
    by (simp add: assms)
  then show "r \<in> set objects" and "d \<in> set (raycast hit r)"
    by (simp_all add: set_intersectObjects)
next
  fix r' d'
  assume "r' \<in> set objects" and "d' \<in> set (raycast hit r')"
  then have "(d', r') \<in> set (intersectObjects hit objects)"
    by (simp add: set_intersectObjects)
  then have "(d', r') = (d, r) \<or> (d', r') \<in> set rest"
    by (simp add: assms)
  moreover have "sorted (d # map fst rest)"
    using sorted_intersectObjects [of hit objects] by (simp add: assms)
  ultimately show "d \<le> d'"
    by force
qed

lemma intersectObjects_empty:
  "intersectObjects hit objects = [] \<longleftrightarrow> (\<forall>r \<in> set objects. raycast hit r = [])"
proof -
  have "intersectObjects hit objects = [] \<longleftrightarrow> length (intersectObjects hit objects) = 0"
    by simp
  also have "\<dots> \<longleftrightarrow> concat (map (\<lambda>r. map (\<lambda>d. (d, r)) (raycast hit r)) objects) = []"
    by (simp only: intersectObjects_def length_sort length_0_conv)
  also have "\<dots> \<longleftrightarrow> (\<forall>r \<in> set objects. raycast hit r = [])"
    by simp
  finally show ?thesis .
qed

lemma intersectObjects_cong:
  "(\<And>r. r \<in> set objects \<Longrightarrow> raycast hit r = raycast hit' r) \<Longrightarrow>
   intersectObjects hit objects = intersectObjects hit' objects"
  unfolding intersectObjects_def
  by (rule arg_cong [where f = "sort_key fst"], rule arg_cong [where f = concat]) simp

lemma run_induct:
  assumes "P s" and "\<And>s e. P s \<Longrightarrow> P (step s e)"
  shows "P (run s es)"
  unfolding run_def using assms(1)
  by (induction es arbitrary: s) (simp_all add: assms(2))

lemma showPlanetInfo_keeps:
  "planets (settle (showPlanetInfo p s)) = planets s"
  "frames (settle (showPlanetInfo p s)) = frames s"
  "raf (settle (showPlanetInfo p s)) = raf s"
  "listeners (settle (showPlanetInfo p s)) = listeners s"
  "simulationSpeed (settle (showPlanetInfo p s)) = simulationSpeed s"
  "camera (settle (showPlanetInfo p s)) = camera s"
  "renderer (settle (showPlanetInfo p s)) = renderer s"
  "console (settle (showPlanetInfo p s)) = console s"
  "scene (settle (showPlanetInfo p s)) = scene s"
  "document (settle (showPlanetInfo p s)) = document s"
  by (simp_all add: showPlanetInfo_def and_then_def setText_def settle_def)

lemma handlePlanetClick_keeps:
  "planets (settle (handlePlanetClick x y hit s)) = planets s"
  "frames (settle (handlePlanetClick x y hit s)) = frames s"
  "raf (settle (handlePlanetClick x y hit s)) = raf s"
  "listeners (settle (handlePlanetClick x y hit s)) = listeners s"
  "simulationSpeed (settle (handlePlanetClick x y hit s)) = simulationSpeed s"
  "camera (settle (handlePlanetClick x y hit s)) = camera s"
  "renderer (settle (handlePlanetClick x y hit s)) = renderer s"
  "console (settle (handlePlanetClick x y hit s)) = console s"
  "scene (settle (handlePlanetClick x y hit s)) = scene s"
  "document (settle (handlePlanetClick x y hit s)) = document s"
  by (simp_all add: handlePlanetClick_def Let_def showPlanetInfo_keeps
      split: list.split obj_ref.split prod.split, simp_all add: settle_def)

lemma setupUI_keeps:
  assumes "setupUI s = Inr s' \<or> setupUI s = Inl (e, s')"
  shows "planets s' = planets s" and "frames s' = frames s" and "raf s' = raf s"
    and "simulationSpeed s' = simulationSpeed s" and "scene s' = scene s"
    and "camera s' = camera s" and "renderer s' = renderer s"
    and "panel_active s' = panel_active s" and "canvas_attached s' = canvas_attached s"
    and "document s' = document s" and "innerWidth s' = innerWidth s"
    and "innerHeight s' = innerHeight s" and "controls_updates s' = controls_updates s"
  using assms
  by (auto simp: setupUI_def and_then_def addElementListener_def Let_def split: if_splits)

lemma built_fields:
  "planets (built rnd pg) = map (\<lambda>(i, config). make_planet config (rnd i)) (enumerate 0 planet_table)"
  "frames (built rnd pg) = frames pg" "raf (built rnd pg) = raf pg"
  "simulationSpeed (built rnd pg) = simulationSpeed pg"
  "document (built rnd pg) = document pg"
  "console (built rnd pg) = console pg"
  "listeners (built rnd pg) = listeners pg"
  "canvas_attached (built rnd pg) = True"
  "panel_active (built rnd pg) = panel_active pg"
  "innerWidth (built rnd pg) = innerWidth pg"
  "innerHeight (built rnd pg) = innerHeight pg"
  "camera (built rnd pg) \<noteq> None" "renderer (built rnd pg) \<noteq> None"
  by (simp_all add: built_def setupControls_def createCelestialBodies_def initScene_def Let_def)

lemma SolarSystem_built:
  "SolarSystem rnd pg =
     (case setupUI (built rnd pg) of
        Inl e \<Rightarrow> Inl e
      | Inr s \<Rightarrow> Inr ((animate s)\<lparr>listeners := listeners (animate s) @ [(''window'', ''resize'')]\<rparr>))"
  by (simp add: SolarSystem_def built_def Let_def and_then_def)

lemma animate_keeps:
  "simulationSpeed (animate s) = simulationSpeed s"
  "listeners (animate s) = listeners s"
  "console (animate s) = console s"
  "document (animate s) = document s"
  "camera (animate s) = camera s"
  "renderer (animate s) = renderer s"
  "scene (animate s) = scene s"
  "panel_active (animate s) = panel_active s"
  "textContent (animate s) = textContent s"
  "canvas_attached (animate s) = canvas_attached s"
  "raf (animate s) = raf s + 1"
  "frames (animate s) = frames s + 1"
  "controls_updates (animate s) = controls_updates s + 1"
  "innerWidth (animate s) = innerWidth s"
  "innerHeight (animate s) = innerHeight s"
  by (simp_all add: animate_def Let_def)

lemma load_distances:
  "map distance (planets (load rnd pg)) = map distance planet_table"
proof -
  have b: "map distance (planets (built rnd pg)) = map distance planet_table"
    by (simp add: built_fields planet_table_def make_planet_fields)
  show ?thesis
  proof (cases "setupUI (built rnd pg)")
    case (Inl a)
    obtain e s' where a: "a = (e, s')" by (cases a)
    have "planets s' = planets (built rnd pg)"
      using setupUI_keeps(1) [of "built rnd pg" s' e] Inl a by simp
    then show ?thesis
      by (simp add: load_def SolarSystem_built Inl a settle_def b)
  next
    case (Inr s')
    have "planets s' = planets (built rnd pg)"
      using setupUI_keeps(1) [of "built rnd pg" s'] Inr by simp
    then show ?thesis
      using b by (simp add: load_def SolarSystem_built Inr settle_def planets_animate
          distance_animate_planet comp_def)
  qed
qed

lemma load_speed: "simulationSpeed (load rnd pg) = simulationSpeed pg"
proof (cases "setupUI (built rnd pg)")
  case (Inl a)
  obtain e s' where a: "a = (e, s')" by (cases a)
  show ?thesis
    using setupUI_keeps(4) [of "built rnd pg" s' e] Inl a
    by (simp add: load_def SolarSystem_built settle_def built_fields)
next
  case (Inr s')
  show ?thesis
    using setupUI_keeps(4) [of "built rnd pg" s'] Inr
    by (simp add: load_def SolarSystem_built settle_def built_fields animate_keeps)
qed

lemma spec_wrap_2pi_less: "spec_wrap_2pi a < 2 * pi"
proof -
  define q where "q = a / (2 * pi)"
  have a: "a = q * (2 * pi)"
    unfolding q_def by simp
  have "spec_wrap_2pi a = a - 2 * pi * of_int \<lfloor>q\<rfloor>"
    by (simp only: spec_wrap_2pi_def q_def)
  also have "\<dots> = (q - of_int \<lfloor>q\<rfloor>) * (2 * pi)"
    by (subst a) (simp only: left_diff_distrib mult.commute)
  also have "\<dots> < 1 * (2 * pi)"
  proof (rule mult_strict_right_mono)
    show "q - of_int \<lfloor>q\<rfloor> < 1" by linarith
    show "0 < 2 * pi" by simp
  qed
  finally show ?thesis by simp
qed

lemma setupUI_ok:
  assumes "{''infoPanel'', ''closeInfoPanel'', ''autoRotate'', ''toggleOrbits'', ''speedControl''}
             \<subseteq> document s"
  shows "setupUI s = Inr (s\<lparr>mouse := Some (Num 0, Num 0),
           listeners := listeners s @ [(''autoRotate'', ''click''), (''toggleOrbits'', ''click''),
             (''speedControl'', ''input''), (''window'', ''click''), (''closeInfoPanel'', ''click'')]\<rparr>)"
  using assms by (simp add: setupUI_def and_then_def addElementListener_def Let_def)

lemma load_ok:
  assumes "{''infoPanel'', ''closeInfoPanel'', ''autoRotate'', ''toggleOrbits'', ''speedControl''}
             \<subseteq> document pg"
  shows "planets (load rnd pg) =
           map (animate_planet (case simulationSpeed pg of None \<Rightarrow> 1 | Some v \<Rightarrow> v))
             (map (\<lambda>(i, config). make_planet config (rnd i)) (enumerate 0 planet_table))"
    and "listeners (load rnd pg) = listeners pg @
           [(''autoRotate'', ''click''), (''toggleOrbits'', ''click''), (''speedControl'', ''input''),
            (''window'', ''click''), (''closeInfoPanel'', ''click''), (''window'', ''resize'')]"
    and "raf (load rnd pg) = raf pg + 1" and "frames (load rnd pg) = frames pg + 1"
proof -
  have d: "{''infoPanel'', ''closeInfoPanel'', ''autoRotate'', ''toggleOrbits'', ''speedControl''}
             \<subseteq> document (built rnd pg)"
    using assms by (simp add: built_fields)
  note ok = setupUI_ok [OF d]
  show "planets (load rnd pg) =
           map (animate_planet (case simulationSpeed pg of None \<Rightarrow> 1 | Some v \<Rightarrow> v))
             (map (\<lambda>(i, config). make_planet config (rnd i)) (enumerate 0 planet_table))"
    by (simp add: load_def SolarSystem_built ok settle_def planets_animate built_fields)
  show "listeners (load rnd pg) = listeners pg @
           [(''autoRotate'', ''click''), (''toggleOrbits'', ''click''), (''speedControl'', ''input''),
            (''window'', ''click''), (''closeInfoPanel'', ''click''), (''window'', ''resize'')]"
    by (simp add: load_def SolarSystem_built ok settle_def animate_keeps built_fields)
  show "raf (load rnd pg) = raf pg + 1"
    by (simp add: load_def SolarSystem_built ok settle_def animate_keeps built_fields)
  show "frames (load rnd pg) = frames pg + 1"
    by (simp add: load_def SolarSystem_built ok settle_def animate_keeps built_fields)
qed

lemma load_first_planet:
  "length (planets (load rnd pg)) = 8" "distance (planets (load rnd pg) ! 0) = 10"
proof -
  have m: "map distance (planets (load rnd pg)) = [10, 15, 20, 25, 35, 45, 55, 65]"
    by (simp add: load_distances) (simp add: planet_table_def)
  from m have "length (map distance (planets (load rnd pg))) = 8" by simp
  then show l: "length (planets (load rnd pg)) = 8" by simp
  have "map distance (planets (load rnd pg)) ! 0 = 10" by (simp add: m)
  then show "distance (planets (load rnd pg) ! 0) = 10" using l by simp
qed

lemma load_length: "length (planets (load rnd pg)) = 8"
proof -
  have "length (map distance (planets (load rnd pg))) = 8"
    by (simp only: load_distances length_map length_planet_table)
  then show ?thesis by simp
qed

lemma load_distance_nth:
  assumes "i < 8"
  shows "distance (planets (load rnd pg) ! i) = distance (planet_table ! i)"
proof -
  have "map distance (planets (load rnd pg)) ! i = map distance planet_table ! i"
    by (simp only: load_distances)
  then show ?thesis
    using assms by (simp add: load_length length_planet_table)
qed

lemma step_keeps_distance_frames:
  "map distance (planets (step s e)) = map distance (planets s)"
  by (cases e)
     (simp_all add: handlePlanetClick_keeps animate_keeps planets_animate distance_animate_planet
        autoRotate_click_def toggleOrbits_click_def speedControl_input_def
        closeInfoPanel_click_def handleResize_def Let_def comp_def
        split: option.split)

lemma planets_step_cases:
  "planets (step s e) = planets s \<and> frames (step s e) = frames s
   \<or> (\<exists>sp. planets (step s e) = map (animate_planet sp) (planets s))
   \<or> planets (step s e) = map (\<lambda>planet. planet\<lparr>orbit := (orbit planet)\<lparr>visible := \<not> visible (orbit planet)\<rparr>\<rparr>) (planets s)
       \<and> frames (step s e) = frames s"
  by (cases e)
     (auto simp: handlePlanetClick_keeps animate_keeps planets_animate
        autoRotate_click_def toggleOrbits_click_def speedControl_input_def
        closeInfoPanel_click_def handleResize_def Let_def
        split: option.split)

lemma step_on_circle:
  assumes "0 < frames s \<longrightarrow> (\<forall>p \<in> set (planets s). on_circle p)"
  shows "0 < frames (step s e) \<longrightarrow> (\<forall>p \<in> set (planets (step s e)). on_circle p)"
  using planets_step_cases [of s e] assms
  by (auto simp: on_circle_def on_circle_animate_planet)

lemma load_cases:
  obtains (threw) e s' where "setupUI (built rnd pg) = Inl (e, s')" and "load rnd pg = s'"
      and "frames s' = frames pg" and "raf s' = raf pg"
      and "planets s' = planets (built rnd pg)"
  | (ran) s' where "setupUI (built rnd pg) = Inr s'"
      and "load rnd pg = (animate s')\<lparr>listeners := listeners (animate s') @ [(''window'', ''resize'')]\<rparr>"
      and "planets s' = planets (built rnd pg)" and "frames s' = frames pg" and "raf s' = raf pg"
proof (cases "setupUI (built rnd pg)")
  case (Inl a)
  obtain e s' where a: "a = (e, s')" by (cases a)
  have k: "setupUI (built rnd pg) = Inr s' \<or> setupUI (built rnd pg) = Inl (e, s')"
    using Inl a by simp
  show ?thesis
  proof (rule threw)
    show "setupUI (built rnd pg) = Inl (e, s')" using Inl a by simp
    show "load rnd pg = s'" by (simp add: load_def SolarSystem_built Inl a settle_def)
    show "frames s' = frames pg" using setupUI_keeps(2) [OF k] by (simp add: built_fields)
    show "raf s' = raf pg" using setupUI_keeps(3) [OF k] by (simp add: built_fields)
    show "planets s' = planets (built rnd pg)" using setupUI_keeps(1) [OF k] .
  qed
next
  case (Inr s')
  have k: "setupUI (built rnd pg) = Inr s' \<or> setupUI (built rnd pg) = Inl (undefined, s')"
    using Inr by simp
  show ?thesis
  proof (rule ran)
    show "setupUI (built rnd pg) = Inr s'" by (rule Inr)
    show "load rnd pg = (animate s')\<lparr>listeners := listeners (animate s') @ [(''window'', ''resize'')]\<rparr>"
      by (simp add: load_def SolarSystem_built Inr settle_def)
    show "planets s' = planets (built rnd pg)" using setupUI_keeps(1) [OF k] .
    show "frames s' = frames pg" using setupUI_keeps(2) [OF k] by (simp add: built_fields)
    show "raf s' = raf pg" using setupUI_keeps(3) [OF k] by (simp add: built_fields)
  qed
qed

lemma load_ran_planets:
  assumes "load rnd pg = (animate s')\<lparr>listeners := listeners (animate s') @ [(''window'', ''resize'')]\<rparr>"
  shows "planets (load rnd pg)
           = map (animate_planet (case simulationSpeed s' of None \<Rightarrow> 1 | Some v \<Rightarrow> v)) (planets s')"
    and "frames (load rnd pg) = frames s' + 1" and "raf (load rnd pg) = raf s' + 1"
  by (simp_all only: assms) (simp_all add: planets_animate animate_keeps)

lemma load_on_circle:
  assumes "frames pg = 0"
  shows "0 < frames (load rnd pg) \<longrightarrow> (\<forall>p \<in> set (planets (load rnd pg)). on_circle p)"
proof (cases rule: load_cases [of rnd pg])
  case (threw e s')
  have "frames (load rnd pg) = 0"
    by (simp only: threw(2,3) assms)
  then show ?thesis by simp
next
  case (ran s')
  show ?thesis
    by (simp only: load_ran_planets(1) [OF ran(2)])
       (simp add: on_circle_def on_circle_animate_planet)
qed

lemma run_on_circle:
  assumes "frames pg = 0"
  shows "0 < frames (run (load rnd pg) es) \<longrightarrow>
         (\<forall>p \<in> set (planets (run (load rnd pg) es)). on_circle p)"
proof (rule run_induct [where P = "\<lambda>s::solar_system. 0 < frames s \<longrightarrow> (\<forall>p \<in> set (planets s). on_circle p)"])
  show "0 < frames (load rnd pg) \<longrightarrow> (\<forall>p \<in> set (planets (load rnd pg)). on_circle p)"
    by (rule load_on_circle [OF assms])
next
  fix s :: solar_system and e
  assume "0 < frames s \<longrightarrow> (\<forall>p \<in> set (planets s). on_circle p)"
  then show "0 < frames (step s e) \<longrightarrow> (\<forall>p \<in> set (planets (step s e)). on_circle p)"
    by (rule step_on_circle)
qed

lemma orbit_animate_planet: "orbit (animate_planet sp p) = orbit p"
  by (simp add: animate_planet_def Let_def)

lemma orbits_agree_map:
  "orbits_agree (map (animate_planet sp) ps) = orbits_agree ps"
  "orbits_agree ps \<Longrightarrow>
   orbits_agree (map (\<lambda>planet. planet\<lparr>orbit := (orbit planet)\<lparr>visible := \<not> visible (orbit planet)\<rparr>\<rparr>) ps)"
  by (auto simp: orbits_agree_def orbit_animate_planet)

lemma step_orbits_agree:
  assumes "orbits_agree (planets s)"
  shows "orbits_agree (planets (step s e))"
  using planets_step_cases [of s e] assms
  by (auto simp: orbits_agree_map)

lemma built_visible:
  assumes "p \<in> set (planets (built rnd pg))"
  shows "visible (orbit p)"
proof -
  have "p \<in> set (map (\<lambda>(i, config). make_planet config (rnd i)) (enumerate 0 planet_table))"
    using assms by (simp only: built_fields(1))
  then obtain i c where "p = make_planet c (rnd i)"
    by auto
  then show ?thesis
    by (simp add: make_planet_fields)
qed

lemma built_orbits_agree: "orbits_agree (planets (built rnd pg))"
  unfolding orbits_agree_def by (simp add: built_visible)

lemma load_orbits_agree: "orbits_agree (planets (load rnd pg))"
proof (cases rule: load_cases [of rnd pg])
  case (threw e s')
  show ?thesis
    by (simp only: threw(2,5) built_orbits_agree)
next
  case (ran s')
  show ?thesis
    by (simp only: load_ran_planets(1) [OF ran(2)] orbits_agree_map ran(3) built_orbits_agree)
qed

lemma run_orbits_agree: "orbits_agree (planets (run (load rnd pg) es))"
proof (rule run_induct [where P = "\<lambda>s::solar_system. orbits_agree (planets s)"])
  show "orbits_agree (planets (load rnd pg))"
    by (rule load_orbits_agree)
next
  fix s :: solar_system and e
  assume "orbits_agree (planets s)"
  then show "orbits_agree (planets (step s e))"
    by (rule step_orbits_agree)
qed

lemma toggleOrbits_click_flips:
  "map (\<lambda>p. visible (orbit p)) (planets (toggleOrbits_click s))
     = map (\<lambda>p. \<not> visible (orbit p)) (planets s)"
  "map mesh (planets (toggleOrbits_click s)) = map mesh (planets s)"
  "map angle (planets (toggleOrbits_click s)) = map angle (planets s)"
  "sun (toggleOrbits_click s) = sun s"
  "scene (toggleOrbits_click s) = scene s"
  by (simp_all add: toggleOrbits_click_def comp_def)

lemma toggleOrbits_click_twice: "toggleOrbits_click (toggleOrbits_click s) = s"
proof -
  define f where "f = (\<lambda>planet::planet. planet\<lparr>orbit := (orbit planet)\<lparr>visible := \<not> visible (orbit planet)\<rparr>\<rparr>)"
  have ff: "f (f p) = p" for p
    by (simp add: f_def)
  have m: "map f (map f ps) = ps" for ps
    by (induction ps) (simp_all add: ff)
  have "toggleOrbits_click (toggleOrbits_click s) = s\<lparr>planets := map f (map f (planets s))\<rparr>"
    by (simp add: toggleOrbits_click_def f_def)
  also have "\<dots> = s"
    by (simp only: m) simp
  finally show ?thesis .
qed

lemma raycast_planet: "raycast hit (RefPlanet i) = hit (RefPlanet i)"
  by simp

lemma raycast_label: "raycast hit (RefLabel i) = []"
  by simp

lemma first_of_planets:
  assumes "intersectObjects hit (map RefPlanet [0..<n]) = (d, obj) # rest"
  shows "\<exists>i. obj = RefPlanet i \<and> nearest_planet hit n i d"
proof -
  from intersectObjects_first(1) [OF assms] obtain i where i: "obj = RefPlanet i" "i < n"
    by auto
  have "d \<in> set (hit (RefPlanet i))"
    using intersectObjects_first(2) [OF assms] by (simp add: i)
  moreover have "d \<le> d'" if "j < n" and "d' \<in> set (hit (RefPlanet j))" for j d'
    by (rule intersectObjects_first(3) [OF assms, of "RefPlanet j"]) (simp_all add: that)
  ultimately show ?thesis
    using i by (auto simp: nearest_planet_def)
qed

lemma planets_empty:
  "intersectObjects hit (map RefPlanet [0..<n]) = [] \<longleftrightarrow> (\<forall>j < n. hit (RefPlanet j) = [])"
  by (auto simp: intersectObjects_empty)

lemma handlePlanetClick_miss:
  assumes "\<forall>j < length (planets s). hit (RefPlanet j) = []"
  shows "handlePlanetClick x y hit s
           = Inr (s\<lparr>mouse := Some (pointer x y (innerWidth s) (innerHeight s))\<rparr>)"
proof -
  have "intersectObjects hit (map RefPlanet [0..<length (planets s)]) = []"
    using assms by (simp only: planets_empty)
  then show ?thesis
    by (simp add: handlePlanetClick_def Let_def)
qed

lemma handlePlanetClick_hit:
  assumes "\<exists>j < length (planets s). hit (RefPlanet j) \<noteq> []"
  shows "\<exists>i d. nearest_planet hit (length (planets s)) i d \<and>
           handlePlanetClick x y hit s
             = showPlanetInfo (planets s ! i)
                 (s\<lparr>mouse := Some (pointer x y (innerWidth s) (innerHeight s))\<rparr>)"
proof -
  have "intersectObjects hit (map RefPlanet [0..<length (planets s)]) \<noteq> []"
    using assms by (simp only: planets_empty) simp
  then obtain d obj rest
    where f: "intersectObjects hit (map RefPlanet [0..<length (planets s)]) = (d, obj) # rest"
    by (cases "intersectObjects hit (map RefPlanet [0..<length (planets s)])") auto
  from first_of_planets [OF f] obtain i
    where i: "obj = RefPlanet i" "nearest_planet hit (length (planets s)) i d"
    by blast
  have "i < length (planets s)"
    using i(2) by (simp add: nearest_planet_def)
  then have "handlePlanetClick x y hit s
             = showPlanetInfo (planets s ! i)
                 (s\<lparr>mouse := Some (pointer x y (innerWidth s) (innerHeight s))\<rparr>)"
    by (simp add: handlePlanetClick_def Let_def f i(1))
  with i(2) show ?thesis by blast
qed

lemma showPlanetInfo_ok:
  assumes "{''planetName'', ''planetRadius'', ''orbitalPeriod'', ''sunDistance''} \<subseteq> document s"
  shows "showPlanetInfo p s =
     Inr (s\<lparr>textContent := (textContent s)
                (''planetName'' \<mapsto> Str (name p), ''planetRadius'' \<mapsto> Km (size p * 12742),
                 ''orbitalPeriod'' \<mapsto> EarthDays \<lfloor>distance p * 10 + 1 / 2\<rfloor>,
                 ''sunDistance'' \<mapsto> MillionKm (distance p * 149.6)),
             panel_active := True\<rparr>)"
  using assms by (simp add: showPlanetInfo_def and_then_def setText_def)

lemma handlePlanetClick_cong:
  assumes "\<forall>i < length (planets s). hit (RefPlanet i) = hit' (RefPlanet i)"
  shows "handlePlanetClick x y hit s = handlePlanetClick x y hit' s"
proof -
  have "intersectObjects hit (map RefPlanet [0..<length (planets s)])
          = intersectObjects hit' (map RefPlanet [0..<length (planets s)])"
    by (rule intersectObjects_cong) (use assms in auto)
  then show ?thesis
    by (simp add: handlePlanetClick_def Let_def)
qed

lemma map_update_same:
  "i < length xs \<Longrightarrow> (map f xs)[i := f (xs ! i)] = map f xs"
  by (simp add: list_eq_iff_nth_eq nth_list_update)

lemma run_length: "length (planets (run s es)) = length (planets s)"
proof (rule run_induct [where P = "\<lambda>t::solar_system. length (planets t) = length (planets s)"])
  show "length (planets s) = length (planets s)" by simp
next
  fix t :: solar_system and e
  assume "length (planets t) = length (planets s)"
  moreover have "length (map distance (planets (step t e))) = length (map distance (planets t))"
    by (simp only: step_keeps_distance_frames)
  ultimately show "length (planets (step t e)) = length (planets s)" by simp
qed

lemma setupUI_missing:
  assumes "''infoPanel'' \<notin> document s \<or> ''closeInfoPanel'' \<notin> document s"
  shows "setupUI s = Inr (s\<lparr>console := console s @ [''Info panel or close button not found in the DOM!'']\<rparr>)"
  using assms by (simp add: setupUI_def)

lemma setupUI_console:
  assumes "\<not> (''infoPanel'' \<notin> document s \<or> ''closeInfoPanel'' \<notin> document s)"
    and "setupUI s = Inr s' \<or> setupUI s = Inl (e, s')"
  shows "console s' = console s"
  using assms
  by (auto simp: setupUI_def and_then_def addElementListener_def Let_def split: if_splits)

lemma page_fields:
  "document (page ids w h dpr) = ids" "console (page ids w h dpr) = []"
  "listeners (page ids w h dpr) = []" "raf (page ids w h dpr) = 0"
  "frames (page ids w h dpr) = 0" "panel_active (page ids w h dpr) = False"
  "simulationSpeed (page ids w h dpr) = None"
  "innerWidth (page ids w h dpr) = w" "innerHeight (page ids w h dpr) = h"
  by (simp_all add: page_def)

lemma SolarSystem_missing:
  assumes "''infoPanel'' \<notin> ids \<or> ''closeInfoPanel'' \<notin> ids"
  shows "SolarSystem rnd (page ids w h dpr) =
           Inr ((animate ((built rnd (page ids w h dpr))
                   \<lparr>console := [''Info panel or close button not found in the DOM!'']\<rparr>))
                \<lparr>listeners := [(''window'', ''resize'')]\<rparr>)"
proof -
  have "''infoPanel'' \<notin> document (built rnd (page ids w h dpr))
          \<or> ''closeInfoPanel'' \<notin> document (built rnd (page ids w h dpr))"
    using assms by (simp add: built_fields page_fields)
  from setupUI_missing [OF this] show ?thesis
    by (simp add: SolarSystem_built animate_keeps built_fields page_fields)
qed

lemma load_console:
  "console (load rnd (page ids w h dpr)) =
     (if ''infoPanel'' \<notin> ids \<or> ''closeInfoPanel'' \<notin> ids
      then [''Info panel or close button not found in the DOM!''] else [])"
proof (cases "''infoPanel'' \<notin> ids \<or> ''closeInfoPanel'' \<notin> ids")
  case True
  show ?thesis
    using True
    by (simp add: load_def SolarSystem_missing [OF True] settle_def animate_keeps)
next
  case False
  then have nm: "\<not> (''infoPanel'' \<notin> document (built rnd (page ids w h dpr))
          \<or> ''closeInfoPanel'' \<notin> document (built rnd (page ids w h dpr)))"
    by (simp add: built_fields page_fields)
  have "console (load rnd (page ids w h dpr)) = []"
  proof (cases rule: load_cases [of rnd "page ids w h dpr"])
    case (threw e s')
    have "console s' = console (built rnd (page ids w h dpr))"
      by (rule setupUI_console [OF nm]) (simp add: threw(1))
    then show ?thesis
      by (simp add: threw(2) built_fields page_fields)
  next
    case (ran s')
    have "console s' = console (built rnd (page ids w h dpr))"
      by (rule setupUI_console [OF nm, where e = undefined]) (simp add: ran(1))
    then show ?thesis
      by (simp add: ran(2) animate_keeps built_fields page_fields)
  qed
  then show ?thesis using False by simp
qed

lemma handleResize_sets:
  assumes "camera s = Some c" and "renderer s = Some r"
  shows "camera (handleResize s) = Some (c\<lparr>aspect := js_divide (innerWidth s) (innerHeight s)\<rparr>)"
    and "renderer (handleResize s) = Some (r\<lparr>width := innerWidth s, height := innerHeight s\<rparr>)"
    and "frames (handleResize s) = frames s"
  using assms by (simp_all add: handleResize_def)

lemma load_document: "document (load rnd pg) = document pg"
proof (cases rule: load_cases [of rnd pg])
  case (threw e s')
  have "document s' = document (built rnd pg)"
    by (rule setupUI_keeps(10)) (simp add: threw(1))
  then show ?thesis by (simp add: threw(2) built_fields)
next
  case (ran s')
  have "document s' = document (built rnd pg)"
    by (rule setupUI_keeps(10) [where e = undefined]) (simp add: ran(1))
  then show ?thesis by (simp add: ran(2) animate_keeps built_fields)
qed

lemma handlePlanetClick_shows:
  assumes "\<exists>j < length (planets s). hit (RefPlanet j) \<noteq> []"
    and "{''planetName'', ''planetRadius'', ''orbitalPeriod'', ''sunDistance''} \<subseteq> document s"
  shows "\<exists>i d s'. nearest_planet hit (length (planets s)) i d \<and>
           handlePlanetClick x y hit s = Inr s' \<and> panel_active s' \<and>
           textContent s' ''planetName'' = Some (Str (name (planets s ! i))) \<and>
           textContent s' ''planetRadius'' = Some (Km (size (planets s ! i) * 12742)) \<and>
           textContent s' ''orbitalPeriod'' = Some (EarthDays \<lfloor>distance (planets s ! i) * 10 + 1 / 2\<rfloor>) \<and>
           textContent s' ''sunDistance'' = Some (MillionKm (distance (planets s ! i) * 149.6))"
proof -
  from handlePlanetClick_hit [OF assms(1), of x y] obtain i d
    where n: "nearest_planet hit (length (planets s)) i d"
      and h: "handlePlanetClick x y hit s
             = showPlanetInfo (planets s ! i)
                 (s\<lparr>mouse := Some (pointer x y (innerWidth s) (innerHeight s))\<rparr>)"
    by blast
  have "{''planetName'', ''planetRadius'', ''orbitalPeriod'', ''sunDistance''}
          \<subseteq> document (s\<lparr>mouse := Some (pointer x y (innerWidth s) (innerHeight s))\<rparr>)"
    using assms(2) by simp
  from showPlanetInfo_ok [OF this, of "planets s ! i"]
  have "\<exists>s'. handlePlanetClick x y hit s = Inr s' \<and> panel_active s' \<and>
           textContent s' ''planetName'' = Some (Str (name (planets s ! i))) \<and>
           textContent s' ''planetRadius'' = Some (Km (size (planets s ! i) * 12742)) \<and>
           textContent s' ''orbitalPeriod'' = Some (EarthDays \<lfloor>distance (planets s ! i) * 10 + 1 / 2\<rfloor>) \<and>
           textContent s' ''sunDistance'' = Some (MillionKm (distance (planets s ! i) * 149.6))"
    by (simp add: h)
  with n show ?thesis by blast
qed

lemma name_animate_planet: "name (animate_planet sp p) = name p"
  by (simp add: animate_planet_def Let_def)

lemma step_names: "map name (planets (step s e)) = map name (planets s)"
  using planets_step_cases [of s e]
  by (auto simp: name_animate_planet comp_def)

lemma built_names: "map name (planets (built rnd pg)) = map name planet_table"
  by (simp add: built_fields planet_table_def make_planet_fields)

lemma load_names: "map name (planets (load rnd pg)) = map name planet_table"
proof (cases rule: load_cases [of rnd pg])
  case (threw e s')
  show ?thesis by (simp only: threw(2,5) built_names)
next
  case (ran s')
  show ?thesis
    by (simp only: load_ran_planets(1) [OF ran(2)] ran(3))
       (simp add: comp_def name_animate_planet built_names)
qed

lemma showPlanetInfo_planetName:
  "textContent (settle (showPlanetInfo p s)) ''planetName'' = textContent s ''planetName''
   \<or> textContent (settle (showPlanetInfo p s)) ''planetName'' = Some (Str (name p))"
  by (simp add: showPlanetInfo_def and_then_def setText_def settle_def)

lemma handlePlanetClick_planetName:
  "textContent (settle (handlePlanetClick x y hit s)) ''planetName'' = textContent s ''planetName''
   \<or> (\<exists>i < length (planets s).
         textContent (settle (handlePlanetClick x y hit s)) ''planetName''
           = Some (Str (name (planets s ! i))))"
proof (cases "intersectObjects hit (map RefPlanet [0..<length (planets s)])")
  case Nil
  then show ?thesis by (simp add: handlePlanetClick_def Let_def settle_def)
next
  case (Cons a rest)
  obtain d obj where a: "a = (d, obj)" by (cases a)
  from first_of_planets [of hit "length (planets s)" d obj rest] Cons a obtain i
    where i: "obj = RefPlanet i" "i < length (planets s)"
    by (auto simp: nearest_planet_def)
  have "settle (handlePlanetClick x y hit s)
          = settle (showPlanetInfo (planets s ! i)
              (s\<lparr>mouse := Some (pointer x y (innerWidth s) (innerHeight s))\<rparr>))"
    using i by (simp add: handlePlanetClick_def Let_def Cons a)
  then show ?thesis
    using showPlanetInfo_planetName [of "planets s ! i"
        "s\<lparr>mouse := Some (pointer x y (innerWidth s) (innerHeight s))\<rparr>"] i(2)
    by auto
qed

lemma step_planetName:
  "textContent (step s e) ''planetName'' = textContent s ''planetName''
   \<or> (\<exists>i < length (planets s).
         textContent (step s e) ''planetName'' = Some (Str (name (planets s ! i))))"
proof (cases e)
  case (WindowClick x y hit)
  then show ?thesis
    using handlePlanetClick_planetName [of x y hit s] by auto
qed (simp_all add: animate_keeps autoRotate_click_def toggleOrbits_click_def
       speedControl_input_def closeInfoPanel_click_def handleResize_def Let_def
       split: option.split)

lemma step_shows_planet:
  assumes "shows_planet s"
  shows "shows_planet (step s e)"
proof -
  have n: "map name (planets s) = map name planet_table"
    using assms by (simp add: shows_planet_def)
  have "name (planets s ! i) \<in> set (map name planet_table)" if "i < length (planets s)" for i
  proof -
    have "map name (planets s) ! i \<in> set (map name (planets s))"
      by (rule nth_mem) (simp add: that)
    then show ?thesis using that by (simp add: n [symmetric])
  qed
  then show ?thesis
    using step_planetName [of s e] assms
    by (auto simp: shows_planet_def step_names)
qed

lemma built_textContent: "textContent (built rnd (page ids w h dpr)) = Map.empty"
  by (simp add: built_def setupControls_def createCelestialBodies_def initScene_def
      Let_def page_def)

lemma setupUI_textContent:
  assumes "setupUI s = Inr s' \<or> setupUI s = Inl (e, s')"
  shows "textContent s' = textContent s"
  using assms
  by (auto simp: setupUI_def and_then_def addElementListener_def Let_def split: if_splits)

lemma load_planetName: "textContent (load rnd (page ids w h dpr)) ''planetName'' = None"
proof (cases rule: load_cases [of rnd "page ids w h dpr"])
  case (threw e s')
  have "textContent s' = textContent (built rnd (page ids w h dpr))"
    by (rule setupUI_textContent) (simp add: threw(1))
  then show ?thesis
    by (simp add: threw(2) built_textContent)
next
  case (ran s')
  have "textContent s' = textContent (built rnd (page ids w h dpr))"
    by (rule setupUI_textContent [where e = undefined]) (simp add: ran(1))
  then show ?thesis
    by (simp add: ran(2) animate_keeps built_textContent)
qed

lemma run_shows_planet: "shows_planet (run (load rnd (page ids w h dpr)) es)"
proof (rule run_induct [where P = shows_planet])
  show "shows_planet (load rnd (page ids w h dpr))"
    by (simp add: shows_planet_def load_names load_planetName)
next
  fix s :: solar_system and e
  assume "shows_planet s"
  then show "shows_planet (step s e)"
    by (rule step_shows_planet)
qed

section \<open>Lemmas on the module\<close>

lemma createPlanet_data:
  "createPlanet oref (d_radius data) (d_color data) (d_distance data) 0 0 (d_distance data)
     (d_orbitSpeed data) (d_rotationSpeed data) (d_name data) (d_timeScale data) s
   = (new_planet data, s\<lparr>scene_g := scene_g s @ [oref]\<rparr>)"
  by (simp add: createPlanet_def new_planet_def Let_def Mesh_def)

lemma create_planets_eq:
  "create_planets i ds s =
     s\<lparr>scene_g := scene_g s @ concat (map (\<lambda>k. [RefOrbit k, RefPlanet k]) [i..<i + length ds]),
       planets_g := planets_g s @ map new_planet ds\<rparr>"
proof (induction ds arbitrary: i s)
  case Nil
  show ?case by simp
next
  case (Cons data rest)
  have u: "[i..<i + length (data # rest)] = i # [Suc i..<Suc i + length rest]"
    by (simp add: upt_rec)
  show ?case
    by (simp only: create_planets.simps createPlanet_data Let_def prod.case Cons.IH u)
       simp
qed

lemma module_setup_fields:
  "planets_g (module_setup w h gw tw) = map new_planet planetData"
  "params_pause (module_setup w h gw tw) = False"
  "params_showOrbits (module_setup w h gw tw) = True"
  "params_timeScale (module_setup w h gw tw) = 1"
  "TWEEN_g (module_setup w h gw tw) = tw"
  "raf_g (module_setup w h gw tw) = 0"
  "calls (module_setup w h gw tw) = []"
  "infoPanel_html (module_setup w h gw tw) = None"
  "visible (orbit_g (sun_g (module_setup w h gw tw))) = True"
  "obj_name (mesh_g (sun_g (module_setup w h gw tw))) = ''Sun''"
  "scene_g (module_setup w h gw tw) =
     [RefAmbientLight, RefSunLight, RefSunOrbit, RefSun]
       @ concat (map (\<lambda>k. [RefOrbit k, RefPlanet k]) [0..<length planetData])"
  by (simp_all add: module_setup_def createPlanet_def Let_def create_planets_eq
      positionResetButton_def Object3D_def)

lemma hover_check_keeps:
  "planets_g (hover_check hit s) = planets_g s"
  "sun_g (hover_check hit s) = sun_g s"
  "params_pause (hover_check hit s) = params_pause s"
  "params_showOrbits (hover_check hit s) = params_showOrbits s"
  "TWEEN_g (hover_check hit s) = TWEEN_g s"
  "raf_g (hover_check hit s) = raf_g s"
  "infoPanel_html (hover_check hit s) = infoPanel_html s"
  "infoPanel_display (hover_check hit s) = infoPanel_display s"
  "scene_g (hover_check hit s) = scene_g s"
  "calls (hover_check hit s) = calls s @ [Raycaster_setFromCamera, Raycaster_intersectObjects]"
  "controls_g (hover_check hit s) = controls_g s"
  "tweens (hover_check hit s) = tweens s"
  by (simp_all add: hover_check_def Let_def split: list.split prod.split)

lemma focusOnPlanet_keeps:
  assumes "focusOnPlanet i s = Inr s' \<or> focusOnPlanet i s = Inl (e, s')"
  shows "planets_g s' = planets_g s" and "sun_g s' = sun_g s"
    and "params_pause s' = params_pause s" and "params_showOrbits s' = params_showOrbits s"
    and "TWEEN_g s' = TWEEN_g s" and "raf_g s' = raf_g s"
    and "infoPanel_html s' = infoPanel_html s" and "infoPanel_display s' = infoPanel_display s"
    and "scene_g s' = scene_g s" and "uncaught_g s' = uncaught_g s"
  using assms by (auto simp: focusOnPlanet_def Let_def split: if_splits)

lemma focusOnPlanet_ok:
  assumes "TWEEN_g s"
  shows "\<exists>s'. focusOnPlanet i s = Inr s' \<and> planets_g s' = planets_g s
           \<and> infoPanel_html s' = infoPanel_html s
           \<and> target (controls_g s') = position (mesh_g (planets_g s ! i))
           \<and> \<not> enabled (controls_g s')
           \<and> tweens s' = tweens s @ [\<lparr>tw_to = Vector3
                  (vx (position (mesh_g (planets_g s ! i)))
                     + (case geometry (mesh_g (planets_g s ! i)) of SphereGeometry r \<Rightarrow> r | _ \<Rightarrow> 0) * 2.5)
                  (vy (position (mesh_g (planets_g s ! i)))
                     + (case geometry (mesh_g (planets_g s ! i)) of SphereGeometry r \<Rightarrow> r | _ \<Rightarrow> 0) * 1.5)
                  (vz (position (mesh_g (planets_g s ! i)))
                     + (case geometry (mesh_g (planets_g s ! i)) of SphereGeometry r \<Rightarrow> r | _ \<Rightarrow> 0) * 2.5),
                tw_start = clock_g s, tw_duration = 1000, tw_aim = Some (RefPlanet i)\<rparr>]"
  using assms by (simp add: focusOnPlanet_def Let_def)

lemma pickable_first:
  assumes "intersectObjects hit (pickable_g s) = (d, obj) # rest"
  shows "\<exists>i. obj = RefPlanet i \<and> nearest_planet hit (length (planets_g s)) i d"
proof -
  have mem: "r \<in> set (pickable_g s) \<longleftrightarrow>
               (\<exists>i < length (planets_g s). r = RefPlanet i \<or> r = RefLabel i)" for r
    by (auto simp: pickable_g_def)
  from intersectObjects_first(1,2) [OF assms] obtain i
    where i: "obj = RefPlanet i" "i < length (planets_g s)"
    by (auto simp: mem)
  have "d \<in> set (hit (RefPlanet i))"
    using intersectObjects_first(2) [OF assms] by (simp add: i)
  moreover have "d \<le> d'" if "j < length (planets_g s)" and "d' \<in> set (hit (RefPlanet j))" for j d'
    by (rule intersectObjects_first(3) [OF assms, of "RefPlanet j"])
       (use that in \<open>auto simp: mem\<close>)
  ultimately show ?thesis
    using i by (auto simp: nearest_planet_def)
qed

lemma pickable_empty:
  "intersectObjects hit (pickable_g s) = [] \<longleftrightarrow> (\<forall>j < length (planets_g s). hit (RefPlanet j) = [])"
  by (auto simp: intersectObjects_empty pickable_g_def)

lemma onMouseClick_miss:
  assumes "\<forall>j < length (planets_g s). hit (RefPlanet j) = []"
  shows "onMouseClick x y hit s =
           Inr (s\<lparr>mouse_g := pointer x y (innerWidth_g s) (innerHeight_g s),
                  calls := calls s @ [Raycaster_setFromCamera, Raycaster_intersectObjects],
                  infoPanel_display := ''none''\<rparr>)"
proof -
  have "intersectObjects hit (pickable_g s) = []"
    using assms by (simp only: pickable_empty)
  moreover have "pickable_g (s\<lparr>mouse_g := m, calls := c\<rparr>) = pickable_g s" for m c
    by (simp add: pickable_g_def)
  ultimately show ?thesis
    by (simp add: onMouseClick_def Let_def)
qed

lemma onMouseClick_hit:
  assumes "\<exists>j < length (planets_g s). hit (RefPlanet j) \<noteq> []" and "TWEEN_g s"
  shows "\<exists>i d s'. nearest_planet hit (length (planets_g s)) i d \<and>
           onMouseClick x y hit s = Inr s' \<and>
           infoPanel_display s' = ''block'' \<and>
           infoPanel_html s' = Some (obj_name (mesh_g (planets_g s ! i)),
                                     sphere_radius (geometry (mesh_g (planets_g s ! i)))) \<and>
           target (controls_g s') = position (mesh_g (planets_g s ! i)) \<and>
           planets_g s' = planets_g s"
proof -
  have pk: "pickable_g (s\<lparr>mouse_g := m, calls := c\<rparr>) = pickable_g s" for m c
    by (simp add: pickable_g_def)
  have "intersectObjects hit (pickable_g s) \<noteq> []"
    using assms(1) by (simp only: pickable_empty) simp
  then obtain d obj rest where f: "intersectObjects hit (pickable_g s) = (d, obj) # rest"
    by (cases "intersectObjects hit (pickable_g s)") auto
  from pickable_first [OF f] obtain i
    where i: "obj = RefPlanet i" "nearest_planet hit (length (planets_g s)) i d"
    by blast
  have il: "i < length (planets_g s)"
    using i(2) by (simp add: nearest_planet_def)
  have "\<exists>s'. onMouseClick x y hit s = Inr s' \<and>
           infoPanel_display s' = ''block'' \<and>
           infoPanel_html s' = Some (obj_name (mesh_g (planets_g s ! i)),
                                     sphere_radius (geometry (mesh_g (planets_g s ! i)))) \<and>
           target (controls_g s') = position (mesh_g (planets_g s ! i)) \<and>
           planets_g s' = planets_g s"
    using il assms(2)
    by (simp add: onMouseClick_def Let_def pk f i(1) focusOnPlanet_def sphere_radius_def)
  with i(2) show ?thesis by blast
qed

lemma onMouseClick_keeps:
  "planets_g (settle_g (onMouseClick x y hit s)) = planets_g s"
  "sun_g (settle_g (onMouseClick x y hit s)) = sun_g s"
  "params_pause (settle_g (onMouseClick x y hit s)) = params_pause s"
  "params_showOrbits (settle_g (onMouseClick x y hit s)) = params_showOrbits s"
  "TWEEN_g (settle_g (onMouseClick x y hit s)) = TWEEN_g s"
  "raf_g (settle_g (onMouseClick x y hit s)) = raf_g s"
  "scene_g (settle_g (onMouseClick x y hit s)) = scene_g s"
  by (simp_all add: onMouseClick_def focusOnPlanet_def settle_g_def Let_def
      split: list.split obj_ref.split prod.split sum.split)

lemma tween_update_keeps:
  "planets_g (snd (tween_update t tw s)) = planets_g s"
  "sun_g (snd (tween_update t tw s)) = sun_g s"
  "params_pause (snd (tween_update t tw s)) = params_pause s"
  "params_showOrbits (snd (tween_update t tw s)) = params_showOrbits s"
  "params_timeScale (snd (tween_update t tw s)) = params_timeScale s"
  "TWEEN_g (snd (tween_update t tw s)) = TWEEN_g s"
  "raf_g (snd (tween_update t tw s)) = raf_g s"
  "infoPanel_html (snd (tween_update t tw s)) = infoPanel_html s"
  "scene_g (snd (tween_update t tw s)) = scene_g s"
  "clock_g (snd (tween_update t tw s)) = clock_g s"
  "INTERSECTED (snd (tween_update t tw s)) = INTERSECTED s"
  by (simp_all add: tween_update_def tween_onUpdate_def tween_onComplete_def Let_def)

lemma group_update_keeps:
  "planets_g (snd (group_update t tws s)) = planets_g s"
  "sun_g (snd (group_update t tws s)) = sun_g s"
  "params_pause (snd (group_update t tws s)) = params_pause s"
  "params_showOrbits (snd (group_update t tws s)) = params_showOrbits s"
  "params_timeScale (snd (group_update t tws s)) = params_timeScale s"
  "TWEEN_g (snd (group_update t tws s)) = TWEEN_g s"
  "raf_g (snd (group_update t tws s)) = raf_g s"
  "infoPanel_html (snd (group_update t tws s)) = infoPanel_html s"
  "scene_g (snd (group_update t tws s)) = scene_g s"
  "clock_g (snd (group_update t tws s)) = clock_g s"
  "INTERSECTED (snd (group_update t tws s)) = INTERSECTED s"
  by (induction tws arbitrary: s;
      simp add: Let_def split_beta tween_update_keeps)+

lemma TWEEN_update_call_keeps:
  "planets_g (TWEEN_update_call s) = planets_g s"
  "sun_g (TWEEN_update_call s) = sun_g s"
  "params_pause (TWEEN_update_call s) = params_pause s"
  "params_showOrbits (TWEEN_update_call s) = params_showOrbits s"
  "params_timeScale (TWEEN_update_call s) = params_timeScale s"
  "TWEEN_g (TWEEN_update_call s) = TWEEN_g s"
  "raf_g (TWEEN_update_call s) = raf_g s"
  "infoPanel_html (TWEEN_update_call s) = infoPanel_html s"
  "scene_g (TWEEN_update_call s) = scene_g s"
  "clock_g (TWEEN_update_call s) = clock_g s"
  "INTERSECTED (TWEEN_update_call s) = INTERSECTED s"
  by (simp_all add: TWEEN_update_call_def Let_def split_beta group_update_keeps)

lemma animate_g_planets:
  "planets_g (animate_g now hit s) =
     (if TWEEN_g s \<and> \<not> params_pause s
      then map (place_planet (now * 0.001) (params_timeScale s)) (planets_g s)
      else planets_g s)"
  "sun_g (animate_g now hit s) =
     (if TWEEN_g s \<and> \<not> params_pause s then spin (sun_g s) else sun_g s)"
  "params_pause (animate_g now hit s) = params_pause s"
  "params_showOrbits (animate_g now hit s) = params_showOrbits s"
  "TWEEN_g (animate_g now hit s) = TWEEN_g s"
  "raf_g (animate_g now hit s) = raf_g s + 1"
  "infoPanel_html (animate_g now hit s) = infoPanel_html s"
  "scene_g (animate_g now hit s) = scene_g s"
  by (simp_all add: animate_g_def Let_def hover_check_keeps TWEEN_update_call_keeps)

lemma run_g_induct:
  assumes "P s" and "\<And>s e. P s \<Longrightarrow> P (step_g s e)"
  shows "P (run_g s es)"
  unfolding run_g_def using assms(1)
  by (induction es arbitrary: s) (simp_all add: assms(2))

lemma resetCamera_keeps:
  "planets_g (settle_g (resetCamera s)) = planets_g s"
  "sun_g (settle_g (resetCamera s)) = sun_g s"
  "infoPanel_html (settle_g (resetCamera s)) = infoPanel_html s"
  "params_showOrbits (settle_g (resetCamera s)) = params_showOrbits s"
  by (simp_all add: resetCamera_def settle_g_def Let_def)

lemma step_g_planets_cases:
  "planets_g (step_g s e) = planets_g s
   \<or> (\<exists>t g. planets_g (step_g s e) = map (place_planet t g) (planets_g s))
   \<or> planets_g (step_g s e)
        = map (\<lambda>planet. planet\<lparr>orbit_g := (orbit_g planet)\<lparr>visible := \<not> params_showOrbits s\<rparr>\<rparr>)
            (planets_g s)
      \<and> params_showOrbits (step_g s e) = (\<not> params_showOrbits s)
   \<or> (\<exists>i v. i < length (planets_g s) \<and>
          planets_g (step_g s e) = (planets_g s)[i := (planets_g s ! i)\<lparr>timeScale := v\<rparr>])"
proof (cases e)
  case (Frame_g now hit)
  then show ?thesis by (auto simp: animate_g_planets)
next
  case (MouseClick x y hit)
  then show ?thesis by (simp add: onMouseClick_keeps)
next
  case ResetClick
  then show ?thesis by (simp add: resetCamera_keeps)
next
  case GuiShowOrbits
  then show ?thesis
    by (simp add: gui_showOrbits_def showOrbits_onChange_def positionResetButton_def Let_def)
next
  case (GuiPlanetTimeScale i v)
  then show ?thesis
    by (auto simp: gui_planet_timeScale_def positionResetButton_def)
next
  case (TimePasses t)
  then show ?thesis by simp
qed (simp_all add: onMouseMove_def gui_timeScale_def gui_pause_def resize_g_def
       positionResetButton_def Let_def)

lemma step_g_showOrbits:
  "planets_g (step_g s e)
        = map (\<lambda>planet. planet\<lparr>orbit_g := (orbit_g planet)\<lparr>visible := \<not> params_showOrbits s\<rparr>\<rparr>)
            (planets_g s)
      \<and> params_showOrbits (step_g s e) = (\<not> params_showOrbits s)
   \<or> map orbit_g (planets_g (step_g s e)) = map orbit_g (planets_g s)
      \<and> params_showOrbits (step_g s e) = params_showOrbits s"
proof (cases e)
  case (Frame_g now hit)
  have "map orbit_g (map (place_planet t g) ps) = map orbit_g ps" for t g ps
    by (simp add: place_planet_def Let_def comp_def)
  with Frame_g show ?thesis by (auto simp: animate_g_planets)
next
  case (MouseClick x y hit)
  then show ?thesis by (simp add: onMouseClick_keeps)
next
  case ResetClick
  then show ?thesis by (simp add: resetCamera_keeps)
next
  case GuiShowOrbits
  then show ?thesis
    by (simp add: gui_showOrbits_def showOrbits_onChange_def positionResetButton_def Let_def)
next
  case (GuiPlanetTimeScale i v)
  then show ?thesis
    by (auto simp: gui_planet_timeScale_def positionResetButton_def map_update map_update_same)
next
  case (TimePasses t)
  then show ?thesis by simp
qed (simp_all add: onMouseMove_def gui_timeScale_def gui_pause_def resize_g_def
       positionResetButton_def Let_def)

lemma step_g_sun:
  "sun_g (step_g s e) = sun_g s \<or> sun_g (step_g s e) = spin (sun_g s)"
proof (cases e)
  case (Frame_g now hit)
  then show ?thesis by (auto simp: animate_g_planets)
next
  case (MouseClick x y hit)
  then show ?thesis by (simp add: onMouseClick_keeps)
next
  case ResetClick
  then show ?thesis by (simp add: resetCamera_keeps)
next
  case (TimePasses t)
  then show ?thesis by simp
qed (simp_all add: onMouseMove_def gui_timeScale_def gui_pause_def resize_g_def
       gui_showOrbits_def showOrbits_onChange_def gui_planet_timeScale_def
       positionResetButton_def Let_def)

lemma place_planet_on_circle: "on_circle_g (place_planet t g q)"
  unfolding on_circle_g_def place_planet_def Let_def
  by (simp add: circle_point)

lemma on_circle_g_update:
  "on_circle_g (q\<lparr>orbit_g := ob\<rparr>) = on_circle_g q"
  "on_circle_g (q\<lparr>timeScale := v\<rparr>) = on_circle_g q"
  by (simp_all add: on_circle_g_def)

lemma step_g_on_circle:
  assumes "\<forall>q \<in> set (planets_g s). on_circle_g q"
  shows "\<forall>q \<in> set (planets_g (step_g s e)). on_circle_g q"
proof -
  have upd: "\<forall>q \<in> set ((planets_g s)[i := (planets_g s ! i)\<lparr>timeScale := v\<rparr>]). on_circle_g q"
    if "i < length (planets_g s)" for i v
  proof
    fix q assume "q \<in> set ((planets_g s)[i := (planets_g s ! i)\<lparr>timeScale := v\<rparr>])"
    then have "q = (planets_g s ! i)\<lparr>timeScale := v\<rparr> \<or> q \<in> set (planets_g s)"
      using set_update_subset_insert [of "planets_g s" i] by auto
    moreover have "on_circle_g (planets_g s ! i)"
      using assms that by simp
    ultimately show "on_circle_g q"
      using assms by (auto simp: on_circle_g_update)
  qed
  from step_g_planets_cases [of s e] show ?thesis
    using assms upd by (auto simp: place_planet_on_circle on_circle_g_update)
qed

lemma module_main_planets:
  "planets_g (module_main w h gw tw now hit) =
     (if tw then map (place_planet (now * 0.001) 1) (map new_planet planetData)
      else map new_planet planetData)"
  by (simp add: module_main_def animate_g_planets module_setup_fields)

lemma new_planet_on_circle: "on_circle_g (new_planet data)"
  by (simp add: on_circle_g_def new_planet_def Vector3_def)

lemma module_main_on_circle:
  "\<forall>q \<in> set (planets_g (module_main w h gw tw now hit)). on_circle_g q"
  by (auto simp: module_main_planets place_planet_on_circle new_planet_on_circle)

lemma run_g_on_circle:
  "\<forall>q \<in> set (planets_g (run_g (module_main w h gw tw now hit) es)). on_circle_g q"
proof (rule run_g_induct [where P = "\<lambda>s::module_state. \<forall>q \<in> set (planets_g s). on_circle_g q"])
  show "\<forall>q \<in> set (planets_g (module_main w h gw tw now hit)). on_circle_g q"
    by (rule module_main_on_circle)
next
  fix s :: module_state and e
  assume "\<forall>q \<in> set (planets_g s). on_circle_g q"
  then show "\<forall>q \<in> set (planets_g (step_g s e)). on_circle_g q"
    by (rule step_g_on_circle)
qed

lemma step_g_length: "length (planets_g (step_g s e)) = length (planets_g s)"
  using step_g_planets_cases [of s e] by auto

lemma run_g_length: "length (planets_g (run_g s es)) = length (planets_g s)"
proof (rule run_g_induct [where P = "\<lambda>t::module_state. length (planets_g t) = length (planets_g s)"])
  show "length (planets_g s) = length (planets_g s)" by simp
next
  fix t :: module_state and e
  assume "length (planets_g t) = length (planets_g s)"
  then show "length (planets_g (step_g t e)) = length (planets_g s)"
    by (simp add: step_g_length)
qed

lemma length_planetData: "length planetData = 8"
  by (simp add: planetData_def)

lemma module_main_length: "length (planets_g (module_main w h gw tw now hit)) = 8"
  by (simp add: module_main_planets length_planetData)

lemma gui_pause_fields:
  "params_pause (gui_pause s) = (\<not> params_pause s)"
  "TWEEN_g (gui_pause s) = TWEEN_g s"
  "planets_g (gui_pause s) = planets_g s"
  by (simp_all add: gui_pause_def positionResetButton_def)

lemma module_main_fields:
  "params_pause (module_main w h gw tw now hit) = False"
  "params_showOrbits (module_main w h gw tw now hit) = True"
  "TWEEN_g (module_main w h gw tw now hit) = tw"
  "scene_g (module_main w h gw tw now hit) = scene_g (module_setup w h gw tw)"
  "infoPanel_html (module_main w h gw tw now hit) = None"
  by (simp_all add: module_main_def animate_g_planets module_setup_fields)

lemma resize_g_sets:
  "aspect (camera_g (step_g s (Resize_g w h))) = js_divide w h"
  "width (renderer_g (step_g s (Resize_g w h))) = w"
  "height (renderer_g (step_g s (Resize_g w h))) = h"
  "labelRenderer_g (step_g s (Resize_g w h)) = (w, h)"
  "calls (step_g s (Resize_g w h)) = calls s"
  by (simp_all add: resize_g_def positionResetButton_def Let_def)

lemma orbit_g_kept:
  "orbit_g (spin q) = orbit_g q"
  "orbit_g (place_planet t g q) = orbit_g q"
  by (simp_all add: spin_def place_planet_def Let_def)

lemma module_main_sun:
  "sun_g (module_main w h gw tw now hit) =
     (if tw then spin (sun_g (module_setup w h gw tw)) else sun_g (module_setup w h gw tw))"
  by (simp add: module_main_def animate_g_planets module_setup_fields)

lemma module_main_sun_visible: "visible (orbit_g (sun_g (module_main w h gw tw now hit)))"
  by (simp add: module_main_sun orbit_g_kept module_setup_fields)

lemma new_planet_visible: "visible (orbit_g (new_planet data))"
  by (simp add: new_planet_def Object3D_def)

lemma module_main_orbits:
  "map (\<lambda>p. visible (orbit_g p)) (planets_g (module_main w h gw tw now hit)) = replicate 8 True"
proof -
  have "map (\<lambda>p. visible (orbit_g p)) (planets_g (module_main w h gw tw now hit))
          = map (\<lambda>data. True) planetData"
    by (simp add: module_main_planets comp_def orbit_g_kept new_planet_visible)
  also have "\<dots> = replicate 8 True"
    by (simp only: map_replicate_const length_planetData)
  finally show ?thesis .
qed

lemma gui_showOrbits_fields:
  "planets_g (gui_showOrbits s) =
     map (\<lambda>planet. planet\<lparr>orbit_g := (orbit_g planet)\<lparr>visible := \<not> params_showOrbits s\<rparr>\<rparr>) (planets_g s)"
  "sun_g (gui_showOrbits s) = sun_g s"
  "scene_g (gui_showOrbits s) = scene_g s"
  "params_showOrbits (gui_showOrbits s) = (\<not> params_showOrbits s)"
  by (simp_all add: gui_showOrbits_def showOrbits_onChange_def positionResetButton_def Let_def)

lemma sun_orbit_in_scene:
  "RefSunOrbit \<in> set (scene_g (module_main w h gw tw now hit))"
  "RefOrbit 0 \<in> set (scene_g (module_main w h gw tw now hit))"
  by (simp_all add: module_main_fields module_setup_fields length_planetData upt_rec)

lemma step_g_sun_visible:
  "visible (orbit_g (sun_g (step_g s e))) = visible (orbit_g (sun_g s))"
  using step_g_sun [of s e] by (auto simp: orbit_g_kept)

lemma run_g_sun_visible:
  "visible (orbit_g (sun_g (run_g (module_main w h gw tw now hit) es)))"
proof (rule run_g_induct [where P = "\<lambda>s::module_state. visible (orbit_g (sun_g s))"])
  show "visible (orbit_g (sun_g (module_main w h gw tw now hit)))"
    by (rule module_main_sun_visible)
next
  fix s :: module_state and e
  assume "visible (orbit_g (sun_g s))"
  then show "visible (orbit_g (sun_g (step_g s e)))"
    by (simp only: step_g_sun_visible)
qed

lemma step_g_orbits_follow:
  assumes "\<forall>p \<in> set (planets_g s). visible (orbit_g p) = params_showOrbits s"
  shows "\<forall>p \<in> set (planets_g (step_g s e)). visible (orbit_g p) = params_showOrbits (step_g s e)"
proof -
  from step_g_showOrbits [of s e] show ?thesis
  proof
    assume "planets_g (step_g s e)
        = map (\<lambda>planet. planet\<lparr>orbit_g := (orbit_g planet)\<lparr>visible := \<not> params_showOrbits s\<rparr>\<rparr>)
            (planets_g s)
      \<and> params_showOrbits (step_g s e) = (\<not> params_showOrbits s)"
    then show ?thesis by auto
  next
    assume a: "map orbit_g (planets_g (step_g s e)) = map orbit_g (planets_g s)
      \<and> params_showOrbits (step_g s e) = params_showOrbits s"
    have img: "orbit_g ` set (planets_g (step_g s e)) = orbit_g ` set (planets_g s)"
      using a by (simp only: set_map [symmetric])
    show ?thesis
    proof
      fix p assume "p \<in> set (planets_g (step_g s e))"
      then have "orbit_g p \<in> orbit_g ` set (planets_g s)"
        using img by blast
      then obtain q where "q \<in> set (planets_g s)" and "orbit_g p = orbit_g q"
        by blast
      then show "visible (orbit_g p) = params_showOrbits (step_g s e)"
        using assms a by simp
    qed
  qed
qed

lemma run_g_orbits_follow:
  "\<forall>p \<in> set (planets_g (run_g (module_main w h gw tw now hit) es)).
     visible (orbit_g p) = params_showOrbits (run_g (module_main w h gw tw now hit) es)"
proof (rule run_g_induct [where P = "\<lambda>s::module_state.
         \<forall>p \<in> set (planets_g s). visible (orbit_g p) = params_showOrbits s"])
  have "\<forall>b \<in> set (map (\<lambda>p. visible (orbit_g p)) (planets_g (module_main w h gw tw now hit))). b"
    by (simp only: module_main_orbits) simp
  then show "\<forall>p \<in> set (planets_g (module_main w h gw tw now hit)).
     visible (orbit_g p) = params_showOrbits (module_main w h gw tw now hit)"
    by (simp add: module_main_fields)
next
  fix s :: module_state and e
  assume "\<forall>p \<in> set (planets_g s). visible (orbit_g p) = params_showOrbits s"
  then show "\<forall>p \<in> set (planets_g (step_g s e)). visible (orbit_g p) = params_showOrbits (step_g s e)"
    by (rule step_g_orbits_follow)
qed

lemma onMouseClick_cong:
  assumes "\<forall>i < length (planets_g g). hit (RefPlanet i) = hit' (RefPlanet i)"
  shows "onMouseClick x y hit g = onMouseClick x y hit' g"
proof -
  have pk: "pickable_g (g\<lparr>mouse_g := m, calls := c\<rparr>) = pickable_g g" for m c
    by (simp add: pickable_g_def)
  have "intersectObjects hit (pickable_g g) = intersectObjects hit' (pickable_g g)"
    by (rule intersectObjects_cong) (use assms in \<open>auto simp: pickable_g_def\<close>)
  then show ?thesis
    by (simp add: onMouseClick_def Let_def pk)
qed

lemma sun_not_picked:
  "RefSun \<notin> snd ` set (intersectObjects hit (map RefPlanet [0..<n]))"
  "RefSun \<notin> snd ` set (intersectObjects hit (pickable_g g))"
  by (auto simp: set_intersectObjects pickable_g_def)

lemma onMouseClick_html:
  "infoPanel_html (settle_g (onMouseClick x y hit s)) = infoPanel_html s
   \<or> (\<exists>i < length (planets_g s). \<exists>r.
         infoPanel_html (settle_g (onMouseClick x y hit s))
           = Some (obj_name (mesh_g (planets_g s ! i)), r))"
  by (auto simp: onMouseClick_def focusOnPlanet_def settle_g_def Let_def
      split: list.split obj_ref.split prod.split sum.split)

lemma step_g_html:
  "infoPanel_html (step_g s e) = infoPanel_html s
   \<or> (\<exists>i < length (planets_g s). \<exists>r.
         infoPanel_html (step_g s e) = Some (obj_name (mesh_g (planets_g s ! i)), r))"
proof (cases e)
  case (MouseClick x y hit)
  then show ?thesis
    using onMouseClick_html [of x y hit s] by auto
next
  case (Frame_g now hit)
  then show ?thesis by (simp add: animate_g_planets)
next
  case ResetClick
  then show ?thesis by (simp add: resetCamera_keeps)
next
  case (TimePasses t)
  then show ?thesis by simp
qed (simp_all add: onMouseMove_def gui_timeScale_def gui_pause_def resize_g_def
       gui_showOrbits_def showOrbits_onChange_def gui_planet_timeScale_def
       positionResetButton_def Let_def)

lemma step_g_names:
  "map (\<lambda>q. obj_name (mesh_g q)) (planets_g (step_g s e))
     = map (\<lambda>q. obj_name (mesh_g q)) (planets_g s)"
proof -
  have pl: "obj_name (mesh_g (place_planet t g q)) = obj_name (mesh_g q)" for t g q
    by (simp add: place_planet_def Let_def)
  have up: "map (\<lambda>q. obj_name (mesh_g q)) ((planets_g s)[i := (planets_g s ! i)\<lparr>timeScale := v\<rparr>])
              = map (\<lambda>q. obj_name (mesh_g q)) (planets_g s)" for i v
  proof (cases "i < length (planets_g s)")
    case True
    from map_update_same [OF True, where f = "\<lambda>q. obj_name (mesh_g q)"]
    show ?thesis by (simp add: map_update)
  next
    case False
    then have "(planets_g s)[i := (planets_g s ! i)\<lparr>timeScale := v\<rparr>] = planets_g s"
      by (intro list_update_beyond) simp
    then show ?thesis by (simp only:)
  qed
  from step_g_planets_cases [of s e] show ?thesis
    by (auto simp: pl comp_def up)
qed

lemma step_g_shows_planet:
  assumes "shows_planet_g s"
  shows "shows_planet_g (step_g s e)"
proof -
  have n: "map (\<lambda>q. obj_name (mesh_g q)) (planets_g s) = map d_name planetData"
    using assms by (simp add: shows_planet_g_def)
  have "obj_name (mesh_g (planets_g s ! i)) \<in> set (map d_name planetData)"
    if "i < length (planets_g s)" for i
  proof -
    have "map (\<lambda>q. obj_name (mesh_g q)) (planets_g s) ! i
            \<in> set (map (\<lambda>q. obj_name (mesh_g q)) (planets_g s))"
      by (rule nth_mem) (simp add: that)
    then show ?thesis using that by (simp add: n [symmetric])
  qed
  then show ?thesis
    using step_g_html [of s e] assms
    by (auto simp: shows_planet_g_def step_g_names)
qed

lemma module_main_names:
  "map (\<lambda>q. obj_name (mesh_g q)) (planets_g (module_main w h gw tw now hit)) = map d_name planetData"
proof -
  have pl: "obj_name (mesh_g (place_planet t g q)) = obj_name (mesh_g q)" for t g q
    by (simp add: place_planet_def Let_def)
  have "obj_name (mesh_g (new_planet data)) = d_name data" for data
    by (simp add: new_planet_def)
  then show ?thesis
    by (simp add: module_main_planets comp_def pl)
qed

lemma run_g_shows_planet: "shows_planet_g (run_g (module_main w h gw tw now hit) es)"
proof (rule run_g_induct [where P = shows_planet_g])
  show "shows_planet_g (module_main w h gw tw now hit)"
    by (simp add: shows_planet_g_def module_main_names module_main_fields)
next
  fix s :: module_state and e
  assume "shows_planet_g s"
  then show "shows_planet_g (step_g s e)"
    by (rule step_g_shows_planet)
qed

lemma sun_is_no_planet:
  "''Sun'' \<notin> set (map d_name planetData)" "''Sun'' \<notin> set (map name planet_table)"
  by (simp_all add: planetData_def planet_table_def)

lemma spin_on_circle: "on_circle_g (spin q) = on_circle_g q"
  by (simp add: on_circle_g_def spin_def)

lemma module_setup_sun_on_circle: "on_circle_g (sun_g (module_setup w h gw tw))"
  by (simp add: module_setup_def createPlanet_def Let_def create_planets_eq
      positionResetButton_def on_circle_g_def Vector3_def Mesh_def)

lemma run_g_sun_on_circle: "on_circle_g (sun_g (run_g (module_main w h gw tw now hit) es))"
proof (rule run_g_induct [where P = "\<lambda>s::module_state. on_circle_g (sun_g s)"])
  show "on_circle_g (sun_g (module_main w h gw tw now hit))"
    by (simp add: module_main_sun spin_on_circle module_setup_sun_on_circle)
next
  fix s :: module_state and e
  assume "on_circle_g (sun_g s)"
  then show "on_circle_g (sun_g (step_g s e))"
    using step_g_sun [of s e] by (auto simp: spin_on_circle)
qed

lemma tween_update_eq:
  "tween_update t tw s =
     (if t < tw_start tw then (True, s)
      else if tween_ended t tw
      then (False, s\<lparr>calls := calls s @ [Camera_lookAt, Controls_update],
                     controls_g := (controls_g s)
                       \<lparr>target := (case tw_aim tw of
                                     Some (RefPlanet i) \<Rightarrow> position (mesh_g (planets_g s ! i))
                                   | _ \<Rightarrow> Vector3 0 0 0),
                        enabled := True\<rparr>\<rparr>)
      else (True, s\<lparr>calls := calls s @ [Camera_lookAt]\<rparr>))"
  by (auto simp: tween_update_def tween_onUpdate_def tween_onComplete_def tween_ended_def
      Let_def split: option.splits obj_ref.splits)

lemma group_update_calls:
  "calls (snd (group_update t tws s)) = calls s @ tween_calls t tws"
proof (induction tws arbitrary: s)
  case Nil
  show ?case by (simp add: tween_calls_def)
next
  case (Cons tw tws)
  have c: "tween_calls t (tw # tws) =
             (if t < tw_start tw then []
              else if tween_ended t tw then [Camera_lookAt, Controls_update]
              else [Camera_lookAt]) @ tween_calls t tws"
    by (simp add: tween_calls_def)
  show ?case
    by (simp add: Let_def split_beta Cons.IH c tween_update_eq)
qed

lemma group_update_playing:
  "fst (group_update t tws s) = filter (\<lambda>tw. \<not> tween_ended t tw) tws"
proof (induction tws arbitrary: s)
  case Nil
  show ?case by simp
next
  case (Cons tw tws)
  have "t < tw_start tw \<Longrightarrow> \<not> tween_ended t tw"
    by (simp add: tween_ended_def)
  then show ?case
    by (simp add: Let_def split_beta Cons.IH tween_update_eq)
qed

lemma group_update_enabled:
  "enabled (controls_g (snd (group_update t tws s)))
     = (enabled (controls_g s) \<or> (\<exists>tw \<in> set tws. tween_ended t tw))"
proof (induction tws arbitrary: s)
  case Nil
  show ?case by simp
next
  case (Cons tw tws)
  have "t < tw_start tw \<Longrightarrow> \<not> tween_ended t tw"
    by (simp add: tween_ended_def)
  then show ?case
    by (auto simp: Let_def split_beta Cons.IH tween_update_eq)
qed

lemma TWEEN_update_call_effect:
  "calls (TWEEN_update_call s) = calls s @ [TWEEN_update] @ tween_calls (clock_g s) (tweens s)"
  "tweens (TWEEN_update_call s) = filter (\<lambda>tw. \<not> tween_ended (clock_g s) tw) (tweens s)"
  "enabled (controls_g (TWEEN_update_call s))
     = (enabled (controls_g s) \<or> (\<exists>tw \<in> set (tweens s). tween_ended (clock_g s) tw))"
  by (simp_all add: TWEEN_update_call_def Let_def split_beta group_update_calls
      group_update_playing group_update_enabled)

lemma onMouseClick_starts_tween:
  assumes "\<exists>j < length (planets_g s). hit (RefPlanet j) \<noteq> []" and "TWEEN_g s"
  shows "map tw_start (tweens (settle_g (onMouseClick x y hit s)))
           = map tw_start (tweens s) @ [clock_g s]"
    and "map tw_duration (tweens (settle_g (onMouseClick x y hit s)))
           = map tw_duration (tweens s) @ [1000]"
    and "\<not> enabled (controls_g (settle_g (onMouseClick x y hit s)))"
proof -
  have pk: "pickable_g (s\<lparr>mouse_g := m, calls := c\<rparr>) = pickable_g s" for m c
    by (simp add: pickable_g_def)
  have "intersectObjects hit (pickable_g s) \<noteq> []"
    using assms(1) by (simp only: pickable_empty) simp
  then obtain d obj rest where f: "intersectObjects hit (pickable_g s) = (d, obj) # rest"
    by (cases "intersectObjects hit (pickable_g s)") auto
  from pickable_first [OF f] obtain i
    where i: "obj = RefPlanet i" "nearest_planet hit (length (planets_g s)) i d"
    by blast
  have il: "i < length (planets_g s)"
    using i(2) by (simp add: nearest_planet_def)
  show "map tw_start (tweens (settle_g (onMouseClick x y hit s)))
           = map tw_start (tweens s) @ [clock_g s]"
    using il assms(2)
    by (simp add: onMouseClick_def Let_def pk f i(1) focusOnPlanet_def settle_g_def)
  show "map tw_duration (tweens (settle_g (onMouseClick x y hit s)))
           = map tw_duration (tweens s) @ [1000]"
    using il assms(2)
    by (simp add: onMouseClick_def Let_def pk f i(1) focusOnPlanet_def settle_g_def)
  show "\<not> enabled (controls_g (settle_g (onMouseClick x y hit s)))"
    using il assms(2)
    by (simp add: onMouseClick_def Let_def pk f i(1) focusOnPlanet_def settle_g_def)
qed

lemma gui_pause_tweens:
  "tweens (gui_pause s) = tweens s"
  "controls_g (gui_pause s) = controls_g s"
  by (simp_all add: gui_pause_def positionResetButton_def)

lemma module_main_clock:
  "clock_g (module_main w h gw True now hit) = now"
  "tweens (module_main w h gw True now hit) = []"
  "length (planets_g (module_main w h gw True now hit)) = 8"
proof -
  have t: "tweens (module_setup w h gw True) = []"
    by (simp add: module_setup_def createPlanet_def Let_def create_planets_eq
        positionResetButton_def)
  show "clock_g (module_main w h gw True now hit) = now"
    by (simp add: module_main_def animate_g_def Let_def module_setup_fields
        TWEEN_update_call_keeps hover_check_def split: list.split prod.split)
  show "tweens (module_main w h gw True now hit) = []"
    by (simp add: module_main_def animate_g_def Let_def module_setup_fields
        TWEEN_update_call_effect hover_check_keeps t)
  show "length (planets_g (module_main w h gw True now hit)) = 8"
    by (simp add: module_main_def animate_g_planets module_setup_fields planetData_def)
qed

section \<open>The claims\<close>

text \<open>
  Claim C1, as the code has it. In \<open>script.js\<close> a planet whose distance is not zero, ticked
  \<open>N\<close> times while the simulation speed is 1 (the slider untouched, or at 1), holds
  the angle it had plus \<open>N\<close> times 0.005 * (10 / distance): the per-tick increment is
  derived from the distance, and the stored angle is not wrapped.
\<close>

theorem C1_angle_after_ticks:
  assumes "i < length (planets s)"
    and "distance (planets s ! i) \<noteq> 0"
    and "simulationSpeed s = None \<or> simulationSpeed s = Some 1"
  shows "angle (planets ((animate ^^ N) s) ! i) =
           angle (planets s ! i) + real N * (0.005 * (10 / distance (planets s ! i)))"
proof -
  have sp: "(case simulationSpeed s of None \<Rightarrow> 1 | Some v \<Rightarrow> v) = 1"
    using assms(3) by auto
  have "planets ((animate ^^ N) s) ! i = (animate_planet 1 ^^ N) (planets s ! i)"
    using assms(1) funpow_animate [of N s] by (simp add: sp)
  then show ?thesis
    using funpow_animate_planet [where sp = 1 and N = N and p = "planets s ! i"] by simp
qed

theorem C1_angle_after_ticks_witness:
  "3 < length (planets (load (\<lambda>i. 1 / 2) (page all_ids 800 600 1))) \<and>
   distance (planets (load (\<lambda>i. 1 / 2) (page all_ids 800 600 1)) ! 3) \<noteq> 0 \<and>
   (simulationSpeed (load (\<lambda>i. 1 / 2) (page all_ids 800 600 1)) = None \<or>
    simulationSpeed (load (\<lambda>i. 1 / 2) (page all_ids 800 600 1)) = Some 1) \<and>
   angle (planets ((animate ^^ 5) (load (\<lambda>i. 1 / 2) (page all_ids 800 600 1))) ! 3) =
     angle (planets (load (\<lambda>i. 1 / 2) (page all_ids 800 600 1)) ! 3) + 5 * (0.005 * (10 / 25))"
proof -
  let ?s = "load (\<lambda>i. 1 / 2) (page all_ids 800 600 1)"
  have h1: "3 < length (planets ?s)"
    by (simp add: load_length)
  have d: "distance (planets ?s ! 3) = 25"
    by (simp add: load_distance_nth) (simp add: planet_table_def)
  have h2: "distance (planets ?s ! 3) \<noteq> 0"
    by (simp add: d)
  have h3: "simulationSpeed ?s = None \<or> simulationSpeed ?s = Some 1"
    by (simp add: load_speed page_def)
  show ?thesis
    using h1 h2 h3 C1_angle_after_ticks [OF h1 h2 h3, of 5] by (simp add: d)
qed

text \<open>
  Claim C1 as stated fails: Mercury, started at angle 0 on a complete page, holds after
  1600 further ticks an angle above 8, which is no value of a wrapping modulo \<open>2\<pi>\<close>.
\<close>

theorem C1_angle_wrapped_counterexample:
  "angle (planets ((animate ^^ 1600) (load (\<lambda>i. 0) (page all_ids 800 600 1))) ! 0)
     \<noteq> spec_wrap_2pi (angle (planets (load (\<lambda>i. 0) (page all_ids 800 600 1)) ! 0) + 1600 * 0.005)"
proof -
  let ?s = "load (\<lambda>i. 0) (page all_ids 800 600 1)"
  have sp: "simulationSpeed ?s = None"
    by (simp add: load_speed page_def)
  have "planets ((animate ^^ 1600) ?s) ! 0 = (animate_planet 1 ^^ 1600) (planets ?s ! 0)"
    using funpow_animate [of 1600 ?s] by (simp add: sp load_first_planet)
  then have a: "angle (planets ((animate ^^ 1600) ?s) ! 0) = angle (planets ?s ! 0) + 8"
    using funpow_animate_planet [where sp = 1 and N = 1600 and p = "planets ?s ! 0"]
    by (simp add: load_first_planet)
  have "planets ?s ! 0 = animate_planet 1 (make_planet (planet_table ! 0) 0)"
    by (subst load_ok(1)) (simp_all add: all_ids_def page_def planet_table_def)
  then have a0: "angle (planets ?s ! 0) = 0.005"
    by (simp add: angle_animate_planet make_planet_fields planet_table_def)
  have "spec_wrap_2pi (angle (planets ?s ! 0) + 1600 * 0.005) < 2 * pi"
    by (rule spec_wrap_2pi_less)
  also have "\<dots> < 8"
    using pi_less_4 by simp
  also have "\<dots> \<le> angle (planets ((animate ^^ 1600) ?s) ! 0)"
    by (simp add: a a0)
  finally show ?thesis by simp
qed

text \<open>
  Claim C2. In every state the page of \<open>script.js\<close> reaches from its load by any events
  and in which a tick has run, and in every state the module reaches from its first line
  by any events, every planet lies on the circle of its orbital distance: the squares of
  the x and z coordinates of its mesh add up to the square of the distance. So does the
  sun of the module, whose distance is 0. The events include changes of the speed and of
  the time scales, pausing, clicks and resizes; the initial angles \<open>rnd\<close> are arbitrary.
\<close>

theorem C2_circular_orbit:
  "(0 < frames (run (load rnd (page ids w h dpr)) es) \<longrightarrow>
      (\<forall>p \<in> set (planets (run (load rnd (page ids w h dpr)) es)).
         (vx (position (mesh p)))\<^sup>2 + (vz (position (mesh p)))\<^sup>2 = (distance p)\<^sup>2))
   \<and> (\<forall>q \<in> set (planets_g (run_g (module_main w' h' gw tw now hit) es')).
         (vx (position (mesh_g q)))\<^sup>2 + (vz (position (mesh_g q)))\<^sup>2 = (orbitRadius q)\<^sup>2)
   \<and> (vx (position (mesh_g (sun_g (run_g (module_main w' h' gw tw now hit) es')))))\<^sup>2
       + (vz (position (mesh_g (sun_g (run_g (module_main w' h' gw tw now hit) es')))))\<^sup>2
       = (orbitRadius (sun_g (run_g (module_main w' h' gw tw now hit) es')))\<^sup>2"
proof -
  have "frames (page ids w h dpr) = 0"
    by (simp add: page_def)
  from run_on_circle [OF this, of rnd es]
  have a: "0 < frames (run (load rnd (page ids w h dpr)) es) \<longrightarrow>
      (\<forall>p \<in> set (planets (run (load rnd (page ids w h dpr)) es)).
         (vx (position (mesh p)))\<^sup>2 + (vz (position (mesh p)))\<^sup>2 = (distance p)\<^sup>2)"
    unfolding on_circle_def .
  from run_g_on_circle [of w' h' gw tw now hit es']
  have b: "\<forall>q \<in> set (planets_g (run_g (module_main w' h' gw tw now hit) es')).
         (vx (position (mesh_g q)))\<^sup>2 + (vz (position (mesh_g q)))\<^sup>2 = (orbitRadius q)\<^sup>2"
    unfolding on_circle_g_def .
  from run_g_sun_on_circle [of w' h' gw tw now hit es']
  have c: "(vx (position (mesh_g (sun_g (run_g (module_main w' h' gw tw now hit) es')))))\<^sup>2
       + (vz (position (mesh_g (sun_g (run_g (module_main w' h' gw tw now hit) es')))))\<^sup>2
       = (orbitRadius (sun_g (run_g (module_main w' h' gw tw now hit) es')))\<^sup>2"
    unfolding on_circle_g_def .
  from a b c show ?thesis by (intro conjI)
qed

theorem C2_circular_orbit_witness:
  "0 < frames (run (load (\<lambda>i. 1 / 4) (page all_ids 800 600 1)) [Frame, SpeedInput 3, Frame]) \<and>
   (vx (position (mesh (planets (run (load (\<lambda>i. 1 / 4) (page all_ids 800 600 1))
         [Frame, SpeedInput 3, Frame]) ! 2))))\<^sup>2
     + (vz (position (mesh (planets (run (load (\<lambda>i. 1 / 4) (page all_ids 800 600 1))
         [Frame, SpeedInput 3, Frame]) ! 2))))\<^sup>2
     = (distance (planets (run (load (\<lambda>i. 1 / 4) (page all_ids 800 600 1))
         [Frame, SpeedInput 3, Frame]) ! 2))\<^sup>2 \<and>
   (vx (position (mesh_g (planets_g (run_g (module_main 800 600 250 True 0 (\<lambda>r. []))
         [GuiPause, Frame_g 2000 (\<lambda>r. []), GuiPause, Frame_g 3000 (\<lambda>r. [])]) ! 2))))\<^sup>2
     + (vz (position (mesh_g (planets_g (run_g (module_main 800 600 250 True 0 (\<lambda>r. []))
         [GuiPause, Frame_g 2000 (\<lambda>r. []), GuiPause, Frame_g 3000 (\<lambda>r. [])]) ! 2))))\<^sup>2
     = (orbitRadius (planets_g (run_g (module_main 800 600 250 True 0 (\<lambda>r. []))
         [GuiPause, Frame_g 2000 (\<lambda>r. []), GuiPause, Frame_g 3000 (\<lambda>r. [])]) ! 2))\<^sup>2"
proof -
  let ?s = "run (load (\<lambda>i. 1 / 4) (page all_ids 800 600 1)) [Frame, SpeedInput 3, Frame]"
  let ?g = "run_g (module_main 800 600 250 True 0 (\<lambda>r. []))
              [GuiPause, Frame_g 2000 (\<lambda>r. []), GuiPause, Frame_g 3000 (\<lambda>r. [])]"
  have ok: "{''infoPanel'', ''closeInfoPanel'', ''autoRotate'', ''toggleOrbits'', ''speedControl''}
              \<subseteq> document (page all_ids 800 600 1)"
    by (simp add: page_def all_ids_def)
  have pg: "raf (page all_ids 800 600 1) = 0" "frames (page all_ids 800 600 1) = 0"
    "listeners (page all_ids 800 600 1) = []"
    by (simp_all add: page_def)
  have f: "0 < frames ?s"
    by (simp add: run_def load_ok(2,3,4) [OF ok] listening_def animate_keeps
        speedControl_input_def pg)
  have p: "planets ?s ! 2 \<in> set (planets ?s)"
    by (rule nth_mem) (simp add: run_length load_length)
  have q: "planets_g ?g ! 2 \<in> set (planets_g ?g)"
    by (rule nth_mem) (simp add: run_g_length module_main_length)
  from C2_circular_orbit [of "\<lambda>i. 1 / 4" all_ids 800 600 1 "[Frame, SpeedInput 3, Frame]"
      800 600 250 True 0 "\<lambda>r. []"
      "[GuiPause, Frame_g 2000 (\<lambda>r. []), GuiPause, Frame_g 3000 (\<lambda>r. [])]"]
  show ?thesis
    using f p q by blast
qed

text \<open>
  Claim C3, as the code has it. When the ray of a click meets a planet mesh, both
  handlers pick a planet none is nearer than and show its info: \<open>script.js\<close> activates
  the panel with the planet's name, radius, period and distance (the page having the
  four spans), the module shows the panel with the mesh's name and radius and aims the
  controls at it (the tween library being there). When the ray meets no planet mesh, the
  module hides the panel, whereas \<open>script.js\<close> leaves the panel and its content as they
  are: there the panel is hidden by its close button only.
\<close>

theorem C3_click_selects_nearest:
  "((\<exists>j < length (planets s). hit (RefPlanet j) \<noteq> []) \<and>
    {''planetName'', ''planetRadius'', ''orbitalPeriod'', ''sunDistance''} \<subseteq> document s \<longrightarrow>
      (\<exists>i d s'. nearest_planet hit (length (planets s)) i d \<and>
         handlePlanetClick x y hit s = Inr s' \<and> panel_active s' \<and>
         textContent s' ''planetName'' = Some (Str (name (planets s ! i))) \<and>
         textContent s' ''planetRadius'' = Some (Km (size (planets s ! i) * 12742)) \<and>
         textContent s' ''orbitalPeriod'' = Some (EarthDays \<lfloor>distance (planets s ! i) * 10 + 1 / 2\<rfloor>) \<and>
         textContent s' ''sunDistance'' = Some (MillionKm (distance (planets s ! i) * 149.6))))
   \<and> ((\<forall>j < length (planets s). hit (RefPlanet j) = []) \<longrightarrow>
      (\<exists>s'. handlePlanetClick x y hit s = Inr s' \<and>
         panel_active s' = panel_active s \<and> textContent s' = textContent s))
   \<and> ((\<exists>j < length (planets_g g). hit (RefPlanet j) \<noteq> []) \<and> TWEEN_g g \<longrightarrow>
      (\<exists>i d g'. nearest_planet hit (length (planets_g g)) i d \<and>
         onMouseClick x y hit g = Inr g' \<and> infoPanel_display g' = ''block'' \<and>
         infoPanel_html g' = Some (obj_name (mesh_g (planets_g g ! i)),
                                   sphere_radius (geometry (mesh_g (planets_g g ! i)))) \<and>
         target (controls_g g') = position (mesh_g (planets_g g ! i)) \<and>
         planets_g g' = planets_g g))
   \<and> ((\<forall>j < length (planets_g g). hit (RefPlanet j) = []) \<longrightarrow>
      (\<exists>g'. onMouseClick x y hit g = Inr g' \<and> infoPanel_display g' = ''none''))"
proof -
  have a: "(\<exists>j < length (planets s). hit (RefPlanet j) \<noteq> []) \<and>
    {''planetName'', ''planetRadius'', ''orbitalPeriod'', ''sunDistance''} \<subseteq> document s \<longrightarrow>
      (\<exists>i d s'. nearest_planet hit (length (planets s)) i d \<and>
         handlePlanetClick x y hit s = Inr s' \<and> panel_active s' \<and>
         textContent s' ''planetName'' = Some (Str (name (planets s ! i))) \<and>
         textContent s' ''planetRadius'' = Some (Km (size (planets s ! i) * 12742)) \<and>
         textContent s' ''orbitalPeriod'' = Some (EarthDays \<lfloor>distance (planets s ! i) * 10 + 1 / 2\<rfloor>) \<and>
         textContent s' ''sunDistance'' = Some (MillionKm (distance (planets s ! i) * 149.6)))"
    using handlePlanetClick_shows [of s hit x y] by blast
  have b: "(\<forall>j < length (planets s). hit (RefPlanet j) = []) \<longrightarrow>
      (\<exists>s'. handlePlanetClick x y hit s = Inr s' \<and>
         panel_active s' = panel_active s \<and> textContent s' = textContent s)"
    by (simp add: handlePlanetClick_miss)
  have c: "(\<exists>j < length (planets_g g). hit (RefPlanet j) \<noteq> []) \<and> TWEEN_g g \<longrightarrow>
      (\<exists>i d g'. nearest_planet hit (length (planets_g g)) i d \<and>
         onMouseClick x y hit g = Inr g' \<and> infoPanel_display g' = ''block'' \<and>
         infoPanel_html g' = Some (obj_name (mesh_g (planets_g g ! i)),
                                   sphere_radius (geometry (mesh_g (planets_g g ! i)))) \<and>
         target (controls_g g') = position (mesh_g (planets_g g ! i)) \<and>
         planets_g g' = planets_g g)"
    using onMouseClick_hit [of g hit x y] by blast
  have d: "(\<forall>j < length (planets_g g). hit (RefPlanet j) = []) \<longrightarrow>
      (\<exists>g'. onMouseClick x y hit g = Inr g' \<and> infoPanel_display g' = ''none'')"
    by (simp add: onMouseClick_miss)
  from a b c d show ?thesis by (intro conjI)
qed

theorem C3_click_selects_nearest_witness:
  "(\<exists>i d s'. nearest_planet (\<lambda>r. if r = RefPlanet 2 then [30] else if r = RefPlanet 4 then [12, 50] else [])
         (length (planets (load (\<lambda>i. 0) (page all_ids 800 600 1)))) i d \<and>
       handlePlanetClick 400 300
         (\<lambda>r. if r = RefPlanet 2 then [30] else if r = RefPlanet 4 then [12, 50] else [])
         (load (\<lambda>i. 0) (page all_ids 800 600 1)) = Inr s' \<and>
       panel_active s' \<and>
       textContent s' ''planetName''
         = Some (Str (name (planets (load (\<lambda>i. 0) (page all_ids 800 600 1)) ! i)))) \<and>
   (\<exists>s'. handlePlanetClick 400 300 (\<lambda>r. if r = RefSun then [47] else [])
         (load (\<lambda>i. 0) (page all_ids 800 600 1)) = Inr s' \<and>
       panel_active s' = panel_active (load (\<lambda>i. 0) (page all_ids 800 600 1))) \<and>
   (\<exists>i d g'. nearest_planet (\<lambda>r. if r = RefPlanet 2 then [30] else if r = RefPlanet 4 then [12, 50] else [])
         (length (planets_g (module_main 800 600 250 True 0 (\<lambda>r. [])))) i d \<and>
       onMouseClick 400 300
         (\<lambda>r. if r = RefPlanet 2 then [30] else if r = RefPlanet 4 then [12, 50] else [])
         (module_main 800 600 250 True 0 (\<lambda>r. [])) = Inr g' \<and>
       infoPanel_display g' = ''block'') \<and>
   (\<exists>g'. onMouseClick 400 300 (\<lambda>r. if r = RefSun then [47] else [])
         (module_main 800 600 250 True 0 (\<lambda>r. [])) = Inr g' \<and>
       infoPanel_display g' = ''none'')"
proof -
  let ?s = "load (\<lambda>i. 0) (page all_ids 800 600 1)"
  let ?g = "module_main 800 600 250 True 0 (\<lambda>r. [])"
  let ?hit = "\<lambda>r. if r = RefPlanet 2 then [30::real] else if r = RefPlanet 4 then [12, 50] else []"
  let ?sun = "\<lambda>r. if r = RefSun then [47::real] else []"
  have h1: "\<exists>j < length (planets ?s). ?hit (RefPlanet j) \<noteq> []"
    by (rule exI [of _ 2]) (simp add: load_length)
  have h2: "{''planetName'', ''planetRadius'', ''orbitalPeriod'', ''sunDistance''} \<subseteq> document ?s"
    by (simp add: load_document page_fields all_ids_def)
  have h3: "\<forall>j < length (planets ?s). ?sun (RefPlanet j) = []"
    by simp
  have h4: "\<exists>j < length (planets_g ?g). ?hit (RefPlanet j) \<noteq> []"
    by (rule exI [of _ 2]) (simp add: module_main_length)
  have h5: "TWEEN_g ?g"
    by (simp add: module_main_fields)
  have h6: "\<forall>j < length (planets_g ?g). ?sun (RefPlanet j) = []"
    by simp
  from C3_click_selects_nearest [where s = ?s and hit = ?hit and g = ?g and x = 400 and y = 300]
    h1 h2 h4 h5
  have a: "\<exists>i d s'. nearest_planet ?hit (length (planets ?s)) i d \<and>
       handlePlanetClick 400 300 ?hit ?s = Inr s' \<and> panel_active s' \<and>
       textContent s' ''planetName'' = Some (Str (name (planets ?s ! i)))"
    and c: "\<exists>i d g'. nearest_planet ?hit (length (planets_g ?g)) i d \<and>
       onMouseClick 400 300 ?hit ?g = Inr g' \<and> infoPanel_display g' = ''block''"
    by blast+
  from C3_click_selects_nearest [where s = ?s and hit = ?sun and g = ?g and x = 400 and y = 300]
    h3 h6
  have b: "\<exists>s'. handlePlanetClick 400 300 ?sun ?s = Inr s' \<and> panel_active s' = panel_active ?s"
    and d: "\<exists>g'. onMouseClick 400 300 ?sun ?g = Inr g' \<and> infoPanel_display g' = ''none''"
    by blast+
  from a b c d show ?thesis by (intro conjI)
qed

text \<open>
  Claim C3 as stated fails in \<open>script.js\<close>: after a click on Earth has opened the
  panel, a click that meets nothing leaves the panel active.
\<close>

theorem C3_miss_keeps_panel_counterexample:
  "panel_active (run (load (\<lambda>i. 0) (page all_ids 800 600 1))
     [WindowClick 400 300 (\<lambda>r. if r = RefPlanet 2 then [30] else []),
      WindowClick 10 10 (\<lambda>r. [])])"
proof -
  let ?s = "load (\<lambda>i. 0) (page all_ids 800 600 1)"
  let ?hit = "\<lambda>r. if r = RefPlanet 2 then [30::real] else []"
  have ok: "{''infoPanel'', ''closeInfoPanel'', ''autoRotate'', ''toggleOrbits'', ''speedControl''}
              \<subseteq> document (page all_ids 800 600 1)"
    by (simp add: page_fields all_ids_def)
  have l: "listening ''window'' ''click'' ?s"
    by (simp add: listening_def load_ok(2) [OF ok])
  have h1: "\<exists>j < length (planets ?s). ?hit (RefPlanet j) \<noteq> []"
    by (rule exI [of _ 2]) (simp add: load_length)
  have h2: "{''planetName'', ''planetRadius'', ''orbitalPeriod'', ''sunDistance''} \<subseteq> document ?s"
    by (simp add: load_document page_fields all_ids_def)
  from handlePlanetClick_shows [OF h1 h2, of 400 300] obtain s1
    where s1: "handlePlanetClick 400 300 ?hit ?s = Inr s1" "panel_active s1"
    by blast
  have st1: "step ?s (WindowClick 400 300 ?hit) = s1"
    by (simp add: l s1(1) settle_def)
  have "listeners s1 = listeners ?s"
    using handlePlanetClick_keeps(4) [of 400 300 ?hit ?s] by (simp add: s1(1) settle_def)
  then have l1: "listening ''window'' ''click'' s1"
    using l by (simp add: listening_def)
  have "step s1 (WindowClick 10 10 (\<lambda>r. [])) =
          s1\<lparr>mouse := Some (pointer 10 10 (innerWidth s1) (innerHeight s1))\<rparr>"
    by (simp add: l1 handlePlanetClick_miss settle_def)
  then have p: "panel_active (step s1 (WindowClick 10 10 (\<lambda>r. [])))"
    by (simp add: s1(2))
  have "run ?s [WindowClick 400 300 ?hit, WindowClick 10 10 (\<lambda>r. [])]
          = step (step ?s (WindowClick 400 300 ?hit)) (WindowClick 10 10 (\<lambda>r. []))"
    by (simp only: run_def foldl.simps)
  then show ?thesis
    using p by (simp only: st1)
qed

text \<open>
  Claim C4, as the code has it. The only message the program itself reports is the one
  of \<open>setupUI\<close>, and the loaded page has it exactly when the element \<open>infoPanel\<close> or
  \<open>closeInfoPanel\<close> is missing. In that case \<open>setupUI\<close> alone returns early: no listener
  of the user interface is registered and the panel stays inactive, but the constructor
  goes on, with the scene built and its canvas on the page: the first frame is rendered,
  the next one is requested, and the resize handler is registered.
\<close>

theorem C4_missing_anchor:
  "console (load rnd (page ids w h dpr)) =
     (if ''infoPanel'' \<notin> ids \<or> ''closeInfoPanel'' \<notin> ids
      then [''Info panel or close button not found in the DOM!''] else [])
   \<and> (''infoPanel'' \<notin> ids \<or> ''closeInfoPanel'' \<notin> ids \<longrightarrow>
        (\<exists>s. SolarSystem rnd (page ids w h dpr) = Inr s \<and>
             listeners s = [(''window'', ''resize'')] \<and> \<not> panel_active s \<and>
             canvas_attached s \<and> length (planets s) = 8 \<and> raf s = 1 \<and> frames s = 1))"
proof -
  have "\<exists>s. SolarSystem rnd (page ids w h dpr) = Inr s \<and>
             listeners s = [(''window'', ''resize'')] \<and> \<not> panel_active s \<and>
             canvas_attached s \<and> length (planets s) = 8 \<and> raf s = 1 \<and> frames s = 1"
    if m: "''infoPanel'' \<notin> ids \<or> ''closeInfoPanel'' \<notin> ids"
    by (simp add: SolarSystem_missing [OF m] animate_keeps planets_animate built_fields
        page_fields length_planet_table)
  then show ?thesis
    using load_console [of rnd ids w h dpr] by blast
qed

theorem C4_missing_anchor_witness:
  "''infoPanel'' \<notin> {''autoRotate'', ''toggleOrbits'', ''speedControl''} \<and>
   console (load (\<lambda>i. 0) (page {''autoRotate'', ''toggleOrbits'', ''speedControl''} 800 600 1))
     = [''Info panel or close button not found in the DOM!''] \<and>
   (\<exists>s. SolarSystem (\<lambda>i. 0) (page {''autoRotate'', ''toggleOrbits'', ''speedControl''} 800 600 1) = Inr s \<and>
        listeners s = [(''window'', ''resize'')] \<and> \<not> panel_active s \<and>
        canvas_attached s \<and> length (planets s) = 8 \<and> raf s = 1 \<and> frames s = 1)"
proof -
  have h: "''infoPanel'' \<notin> {''autoRotate'', ''toggleOrbits'', ''speedControl''}"
    by simp
  from C4_missing_anchor [of "\<lambda>i. 0" "{''autoRotate'', ''toggleOrbits'', ''speedControl''}" 800 600 1] h
  show ?thesis by simp
qed

text \<open>
  Claim C4 as stated fails: on a page without the info panel the render loop is started
  all the same (one frame rendered, the next one pending) and the canvas is shown.
\<close>

theorem C4_render_loop_started_counterexample:
  "''infoPanel'' \<notin> {''autoRotate'', ''toggleOrbits'', ''speedControl''} \<and>
   raf (load (\<lambda>i. 0) (page {''autoRotate'', ''toggleOrbits'', ''speedControl''} 800 600 1)) = 1 \<and>
   frames (load (\<lambda>i. 0) (page {''autoRotate'', ''toggleOrbits'', ''speedControl''} 800 600 1)) = 1 \<and>
   canvas_attached (load (\<lambda>i. 0) (page {''autoRotate'', ''toggleOrbits'', ''speedControl''} 800 600 1))"
proof -
  have m: "''infoPanel'' \<notin> {''autoRotate'', ''toggleOrbits'', ''speedControl''}
           \<or> ''closeInfoPanel'' \<notin> {''autoRotate'', ''toggleOrbits'', ''speedControl''}"
    by simp
  show ?thesis
    by (simp add: load_def SolarSystem_missing [OF m] settle_def animate_keeps built_fields page_fields)
qed

text \<open>
  Claim C5. A tick of the module while \<open>params.pause\<close> is set leaves every planet (its
  position and rotation; the module stores no angle) and the sun as they were; and, the
  tween library being there, the tick still advances the tweens in flight: inside
  \<open>TWEEN.update()\<close> every tween that has started runs its \<open>onUpdate\<close>, and one that has
  ended also runs its \<open>onComplete\<close>, which updates the controls and enables them
  again, and leaves the flight. After that the tick runs the hover check against the
  planets, updates the controls, renders the scene and the labels, and has requested
  the next frame.
\<close>

theorem C5_paused_tick:
  assumes "params_pause s"
  shows "planets_g (animate_g now hit s) = planets_g s \<and>
         sun_g (animate_g now hit s) = sun_g s \<and>
         (TWEEN_g s \<longrightarrow>
            calls (animate_g now hit s) =
              calls s @ [TWEEN_update] @ tween_calls now (tweens s)
                @ [Raycaster_setFromCamera, Raycaster_intersectObjects,
                   Controls_update, Renderer_render, LabelRenderer_render] \<and>
            tweens (animate_g now hit s) = filter (\<lambda>tw. \<not> tween_ended now tw) (tweens s) \<and>
            enabled (controls_g (animate_g now hit s)) =
              (enabled (controls_g s) \<or> (\<exists>tw \<in> set (tweens s). tween_ended now tw)) \<and>
            INTERSECTED (animate_g now hit s) =
              (case intersectObjects hit (pickable_g s) of
                 [] \<Rightarrow> None | (d, obj) # rest \<Rightarrow> Some obj) \<and>
            raf_g (animate_g now hit s) = raf_g s + 1)"
proof -
  let ?s0 = "s\<lparr>clock_g := now, raf_g := Suc (raf_g s)\<rparr>"
  let ?s1 = "TWEEN_update_call ?s0"
  have pk: "pickable_g ?s1 = pickable_g s"
    by (simp add: pickable_g_def TWEEN_update_call_keeps)
  have a: "animate_g now hit s =
             (hover_check hit ?s1)\<lparr>calls := calls (hover_check hit ?s1)
                @ [Controls_update, Renderer_render, LabelRenderer_render]\<rparr>"
    if "TWEEN_g s"
    using assms that by (simp add: animate_g_def Let_def TWEEN_update_call_keeps)
  have "planets_g (animate_g now hit s) = planets_g s"
    and "sun_g (animate_g now hit s) = sun_g s"
    using assms by (simp_all add: animate_g_planets)
  moreover have "calls (animate_g now hit s) =
              calls s @ [TWEEN_update] @ tween_calls now (tweens s)
                @ [Raycaster_setFromCamera, Raycaster_intersectObjects,
                   Controls_update, Renderer_render, LabelRenderer_render]"
    if "TWEEN_g s"
    by (simp add: a [OF that] hover_check_keeps TWEEN_update_call_effect)
  moreover have "tweens (animate_g now hit s)
                   = filter (\<lambda>tw. \<not> tween_ended now tw) (tweens s)"
    if "TWEEN_g s"
    by (simp add: a [OF that] hover_check_keeps TWEEN_update_call_effect)
  moreover have "enabled (controls_g (animate_g now hit s)) =
              (enabled (controls_g s) \<or> (\<exists>tw \<in> set (tweens s). tween_ended now tw))"
    if "TWEEN_g s"
    by (simp add: a [OF that] hover_check_keeps TWEEN_update_call_effect)
  moreover have "INTERSECTED (animate_g now hit s) =
              (case intersectObjects hit (pickable_g s) of
                 [] \<Rightarrow> None | (d, obj) # rest \<Rightarrow> Some obj)"
    if "TWEEN_g s"
    by (simp add: a [OF that] hover_check_def Let_def pickable_g_def TWEEN_update_call_keeps
        split: list.split prod.split)
  moreover have "raf_g (animate_g now hit s) = raf_g s + 1"
    by (simp add: animate_g_planets)
  ultimately show ?thesis by blast
qed

theorem C5_paused_tick_witness:
  "params_pause (gui_pause (settle_g (onMouseClick 400 300
       (\<lambda>r. if r = RefPlanet 2 then [30] else [])
       (module_main 800 600 250 True 0 (\<lambda>r. []))))) \<and>
   TWEEN_g (gui_pause (settle_g (onMouseClick 400 300
       (\<lambda>r. if r = RefPlanet 2 then [30] else [])
       (module_main 800 600 250 True 0 (\<lambda>r. []))))) \<and>
   map tw_start (tweens (gui_pause (settle_g (onMouseClick 400 300
       (\<lambda>r. if r = RefPlanet 2 then [30] else [])
       (module_main 800 600 250 True 0 (\<lambda>r. [])))))) = [0] \<and>
   map tw_duration (tweens (gui_pause (settle_g (onMouseClick 400 300
       (\<lambda>r. if r = RefPlanet 2 then [30] else [])
       (module_main 800 600 250 True 0 (\<lambda>r. [])))))) = [1000] \<and>
   \<not> enabled (controls_g (gui_pause (settle_g (onMouseClick 400 300
       (\<lambda>r. if r = RefPlanet 2 then [30] else [])
       (module_main 800 600 250 True 0 (\<lambda>r. [])))))) \<and>
   planets_g (animate_g 1000 (\<lambda>r. []) (gui_pause (settle_g (onMouseClick 400 300
       (\<lambda>r. if r = RefPlanet 2 then [30] else [])
       (module_main 800 600 250 True 0 (\<lambda>r. []))))))
     = planets_g (gui_pause (settle_g (onMouseClick 400 300
       (\<lambda>r. if r = RefPlanet 2 then [30] else [])
       (module_main 800 600 250 True 0 (\<lambda>r. []))))) \<and>
   calls (animate_g 1000 (\<lambda>r. []) (gui_pause (settle_g (onMouseClick 400 300
       (\<lambda>r. if r = RefPlanet 2 then [30] else [])
       (module_main 800 600 250 True 0 (\<lambda>r. []))))))
     = calls (gui_pause (settle_g (onMouseClick 400 300
       (\<lambda>r. if r = RefPlanet 2 then [30] else [])
       (module_main 800 600 250 True 0 (\<lambda>r. [])))))
         @ [TWEEN_update, Camera_lookAt, Controls_update,
            Raycaster_setFromCamera, Raycaster_intersectObjects,
            Controls_update, Renderer_render, LabelRenderer_render] \<and>
   tweens (animate_g 1000 (\<lambda>r. []) (gui_pause (settle_g (onMouseClick 400 300
       (\<lambda>r. if r = RefPlanet 2 then [30] else [])
       (module_main 800 600 250 True 0 (\<lambda>r. [])))))) = [] \<and>
   enabled (controls_g (animate_g 1000 (\<lambda>r. []) (gui_pause (settle_g (onMouseClick 400 300
       (\<lambda>r. if r = RefPlanet 2 then [30] else [])
       (module_main 800 600 250 True 0 (\<lambda>r. [])))))))"
proof -
  let ?g0 = "module_main 800 600 250 True 0 (\<lambda>r. [])"
  let ?hit = "\<lambda>r. if r = RefPlanet 2 then [30::real] else []"
  let ?g1 = "settle_g (onMouseClick 400 300 ?hit ?g0)"
  let ?s = "gui_pause ?g1"
  have tw0: "TWEEN_g ?g0"
    by (simp add: module_main_fields)
  have ex: "\<exists>j < length (planets_g ?g0). ?hit (RefPlanet j) \<noteq> []"
    by (simp add: module_main_clock)
  have h1: "params_pause ?s"
    by (simp add: gui_pause_fields onMouseClick_keeps module_main_fields)
  have h2: "TWEEN_g ?s"
    by (simp add: gui_pause_fields onMouseClick_keeps module_main_fields)
  have st: "map tw_start (tweens ?s) = [0]"
    using onMouseClick_starts_tween(1) [OF ex tw0, of 400 300]
    by (simp add: gui_pause_tweens module_main_clock)
  have du: "map tw_duration (tweens ?s) = [1000]"
    using onMouseClick_starts_tween(2) [OF ex tw0, of 400 300]
    by (simp add: gui_pause_tweens module_main_clock)
  have en: "\<not> enabled (controls_g ?s)"
    using onMouseClick_starts_tween(3) [OF ex tw0, of 400 300]
    by (simp add: gui_pause_tweens)
  from st obtain tw where tw: "tweens ?s = [tw]" "tw_start tw = 0"
    by auto
  from du tw(1) have d: "tw_duration tw = 1000"
    by simp
  have e: "tween_ended 1000 tw"
    by (simp add: tween_ended_def tw(2) d)
  have c: "tween_calls 1000 (tweens ?s) = [Camera_lookAt, Controls_update]"
    by (simp add: tween_calls_def tw e)
  have f: "filter (\<lambda>tw. \<not> tween_ended 1000 tw) (tweens ?s) = []"
    by (simp add: tw(1) e)
  have x: "\<exists>tw \<in> set (tweens ?s). tween_ended 1000 tw"
    by (simp add: tw(1) e)
  from C5_paused_tick [OF h1, of 1000 "\<lambda>r. []"] h2
  have "planets_g (animate_g 1000 (\<lambda>r. []) ?s) = planets_g ?s"
    and "calls (animate_g 1000 (\<lambda>r. []) ?s) =
           calls ?s @ [TWEEN_update] @ tween_calls 1000 (tweens ?s)
             @ [Raycaster_setFromCamera, Raycaster_intersectObjects,
                Controls_update, Renderer_render, LabelRenderer_render]"
    and "tweens (animate_g 1000 (\<lambda>r. []) ?s)
           = filter (\<lambda>tw. \<not> tween_ended 1000 tw) (tweens ?s)"
    and "enabled (controls_g (animate_g 1000 (\<lambda>r. []) ?s)) =
           (enabled (controls_g ?s) \<or> (\<exists>tw \<in> set (tweens ?s). tween_ended 1000 tw))"
    by blast+
  then have "planets_g (animate_g 1000 (\<lambda>r. []) ?s) = planets_g ?s"
    and "calls (animate_g 1000 (\<lambda>r. []) ?s) =
           calls ?s @ [TWEEN_update, Camera_lookAt, Controls_update,
                Raycaster_setFromCamera, Raycaster_intersectObjects,
                Controls_update, Renderer_render, LabelRenderer_render]"
    and "tweens (animate_g 1000 (\<lambda>r. []) ?s) = []"
    and "enabled (controls_g (animate_g 1000 (\<lambda>r. []) ?s))"
    using c f x by simp_all
  with h1 h2 st du en show ?thesis by blast
qed

text \<open>
  Claim C6 fails in the module: \<open>createPlanet\<close> is also used for the sun, so the scene
  holds an orbit ring of the sun, which is not among \<open>planets\<close>. One activation of the
  show-orbits checkbox flips the visibility of every planet's ring and leaves the sun's
  ring as it was. (In \<open>script.js\<close> the sun has no ring, one click flips every ring and
  nothing else, and two clicks restore the state: lemmas \<open>toggleOrbits_click_flips\<close>
  and \<open>toggleOrbits_click_twice\<close>.)
\<close>

theorem C6_sun_ring_not_toggled:
  "RefSunOrbit \<in> set (scene_g (module_main w h gw tw now hit)) \<and>
   is_orbit_visual RefSunOrbit \<and>
   visible (orbit_g (sun_g (gui_showOrbits (module_main w h gw tw now hit))))
     = visible (orbit_g (sun_g (module_main w h gw tw now hit))) \<and>
   map (\<lambda>p. visible (orbit_g p)) (planets_g (gui_showOrbits (module_main w h gw tw now hit)))
     = map (\<lambda>p. \<not> visible (orbit_g p)) (planets_g (module_main w h gw tw now hit))"
proof -
  have "map (\<lambda>p. visible (orbit_g p)) (planets_g (gui_showOrbits (module_main w h gw tw now hit)))
          = replicate 8 False"
    by (simp add: gui_showOrbits_fields comp_def module_main_fields module_main_length
        map_replicate_const)
  moreover have "map (\<lambda>p. \<not> visible (orbit_g p)) (planets_g (module_main w h gw tw now hit))
          = replicate 8 False"
    using module_main_orbits [of w h gw tw now hit]
    by (simp add: list_eq_iff_nth_eq)
  ultimately show ?thesis
    by (simp add: sun_orbit_in_scene is_orbit_visual_def gui_showOrbits_fields)
qed

text \<open>
  Claim C7. The table of \<open>script.js\<close> has the eight distances 10, 15, 20, 25, 35, 45,
  55, 65, and the scene built from it holds exactly eight planet meshes, eight orbit
  rings and one sun; the planets keep the distances of the table, and the outer radius
  of every orbit ring is the distance of its planet.
\<close>

theorem C7_scene_build:
  "map distance planet_table = [10, 15, 20, 25, 35, 45, 55, 65] \<and>
   length (filter is_body_visual (scene (createCelestialBodies rnd (initScene pg)))) = 8 \<and>
   length (filter is_orbit_visual (scene (createCelestialBodies rnd (initScene pg)))) = 8 \<and>
   length (filter is_sun_visual (scene (createCelestialBodies rnd (initScene pg)))) = 1 \<and>
   map distance (planets (createCelestialBodies rnd (initScene pg))) = map distance planet_table \<and>
   map (\<lambda>p. outer_radius (geometry (orbit p))) (planets (createCelestialBodies rnd (initScene pg)))
     = map distance planet_table"
proof -
  have t: "map distance planet_table = [10, 15, 20, 25, 35, 45, 55, 65]"
    by (simp add: planet_table_def)
  have b: "length (filter is_body_visual (scene (createCelestialBodies rnd (initScene pg)))) = 8"
    by (simp add: scene_built filter_refs length_planet_table is_body_visual_def)
  have o: "length (filter is_orbit_visual (scene (createCelestialBodies rnd (initScene pg)))) = 8"
    by (simp add: scene_built filter_refs length_planet_table is_orbit_visual_def)
  have u: "length (filter is_sun_visual (scene (createCelestialBodies rnd (initScene pg)))) = 1"
    by (simp add: scene_built filter_refs length_planet_table is_sun_visual_def)
  have d: "map distance (planets (createCelestialBodies rnd (initScene pg))) = map distance planet_table"
    by (simp add: planets_built planet_table_def make_planet_fields)
  have r: "map (\<lambda>p. outer_radius (geometry (orbit p))) (planets (createCelestialBodies rnd (initScene pg)))
     = map distance planet_table"
    by (simp add: planets_built planet_table_def make_planet_fields)
  from t b o u d r show ?thesis by blast
qed

text \<open>
  Claim C8 fails in the HTML page: its resize listener names \<open>camera\<close> and \<open>renderer\<close>,
  which no binding of the script provides, so that on a resize to 1000 by 500 it throws a
  \<open>ReferenceError\<close> and leaves the camera and the renderer as they were. The method
  \<open>handleResize\<close> of \<open>script.js\<close> and the listener of the module do what the claim says
  (lemmas \<open>handleResize_sets\<close> and \<open>resize_g_sets\<close>).
\<close>

theorem C8_html_resize:
  "resize_listener_html (s\<lparr>innerWidth := 1000, innerHeight := 500\<rparr>)
     = Inl (ReferenceError ''camera'', s\<lparr>innerWidth := 1000, innerHeight := 500\<rparr>) \<and>
   camera (settle (resize_listener_html (s\<lparr>innerWidth := 1000, innerHeight := 500\<rparr>))) = camera s \<and>
   renderer (settle (resize_listener_html (s\<lparr>innerWidth := 1000, innerHeight := 500\<rparr>))) = renderer s"
  by (simp add: resize_listener_html_def globals_html_def settle_def)

text \<open>
  Claim C9. Both click handlers cast the ray against the planet meshes only (the
  module also against their labels, which no ray meets), so what a click does depends on
  where the ray meets the planets and on nothing else: a click whose ray meets the sun
  and no planet does exactly what a click into empty space does. No intersection the
  handlers see has the sun as its object, and in no state the page or the module reaches
  from its load does the info panel show the name of the sun.
\<close>

theorem C9_sun_never_picked:
  "((\<forall>i < length (planets s). hit (RefPlanet i) = hit' (RefPlanet i)) \<longrightarrow>
      handlePlanetClick x y hit s = handlePlanetClick x y hit' s)
   \<and> ((\<forall>i < length (planets_g g). hit (RefPlanet i) = hit' (RefPlanet i)) \<longrightarrow>
      onMouseClick x y hit g = onMouseClick x y hit' g)
   \<and> RefSun \<notin> snd ` set (intersectObjects hit (map RefPlanet [0..<length (planets s)]))
   \<and> RefSun \<notin> snd ` set (intersectObjects hit (pickable_g g))
   \<and> textContent (run (load rnd (page ids w h dpr)) es) ''planetName'' \<noteq> Some (Str ''Sun'')
   \<and> map_option fst (infoPanel_html (run_g (module_main w' h' gw tw now hit0) es')) \<noteq> Some ''Sun''"
proof -
  have a: "(\<forall>i < length (planets s). hit (RefPlanet i) = hit' (RefPlanet i)) \<longrightarrow>
      handlePlanetClick x y hit s = handlePlanetClick x y hit' s"
    using handlePlanetClick_cong [of s hit hit' x y] by blast
  have b: "(\<forall>i < length (planets_g g). hit (RefPlanet i) = hit' (RefPlanet i)) \<longrightarrow>
      onMouseClick x y hit g = onMouseClick x y hit' g"
    using onMouseClick_cong [of g hit hit' x y] by blast
  have c: "textContent (run (load rnd (page ids w h dpr)) es) ''planetName'' \<noteq> Some (Str ''Sun'')"
  proof
    assume eq: "textContent (run (load rnd (page ids w h dpr)) es) ''planetName'' = Some (Str ''Sun'')"
    have "textContent (run (load rnd (page ids w h dpr)) es) ''planetName''
            \<in> insert None ((\<lambda>n. Some (Str n)) ` set (map name planet_table))"
      using run_shows_planet [of rnd ids w h dpr es] by (simp only: shows_planet_def)
    then have "Some (Str ''Sun'') \<in> (\<lambda>n. Some (Str n)) ` set (map name planet_table)"
      by (simp add: eq)
    then have "''Sun'' \<in> set (map name planet_table)"
      by blast
    then show False
      using sun_is_no_planet(2) by simp
  qed
  have d: "map_option fst (infoPanel_html (run_g (module_main w' h' gw tw now hit0) es')) \<noteq> Some ''Sun''"
  proof
    assume eq: "map_option fst (infoPanel_html (run_g (module_main w' h' gw tw now hit0) es')) = Some ''Sun''"
    have "map_option fst (infoPanel_html (run_g (module_main w' h' gw tw now hit0) es'))
            \<in> insert None (Some ` set (map d_name planetData))"
      using run_g_shows_planet [of w' h' gw tw now hit0 es'] by (simp only: shows_planet_g_def)
    then have "Some ''Sun'' \<in> Some ` set (map d_name planetData)"
      by (simp add: eq)
    then have "''Sun'' \<in> set (map d_name planetData)"
      by blast
    then show False
      using sun_is_no_planet(1) by simp
  qed
  from a b sun_not_picked(1) [of hit "length (planets s)"] sun_not_picked(2) [of hit g] c d
  show ?thesis by (intro conjI)
qed

theorem C9_sun_never_picked_witness:
  "handlePlanetClick 400 300 (\<lambda>r. if r = RefSun then [47] else [])
       (load (\<lambda>i. 0) (page all_ids 800 600 1))
     = handlePlanetClick 400 300 (\<lambda>r. []) (load (\<lambda>i. 0) (page all_ids 800 600 1)) \<and>
   onMouseClick 400 300 (\<lambda>r. if r = RefSun then [47] else [])
       (module_main 800 600 250 True 0 (\<lambda>r. []))
     = onMouseClick 400 300 (\<lambda>r. []) (module_main 800 600 250 True 0 (\<lambda>r. []))"
proof -
  let ?s = "load (\<lambda>i. 0) (page all_ids 800 600 1)"
  let ?g = "module_main 800 600 250 True 0 (\<lambda>r. [])"
  let ?sun = "\<lambda>r. if r = RefSun then [47::real] else []"
  have h1: "\<forall>i < length (planets ?s). ?sun (RefPlanet i) = (\<lambda>r. []) (RefPlanet i)"
    by simp
  have h2: "\<forall>i < length (planets_g ?g). ?sun (RefPlanet i) = (\<lambda>r. []) (RefPlanet i)"
    by simp
  from C9_sun_never_picked [where s = ?s and g = ?g and hit = ?sun and hit' = "\<lambda>r. []"
      and x = 400 and y = 300] h1 h2
  show ?thesis by blast
qed

text \<open>
  Claim C10 fails in the module: after the show-orbits checkbox is unchecked once, the
  sun's orbit ring is visible and the eight rings of the planets are not, and all of
  them are in the scene. (In \<open>script.js\<close> all rings agree in every reachable state, and in
  the module the planets' rings all follow the checkbox: lemmas \<open>run_orbits_agree\<close>
  and \<open>run_g_orbits_follow\<close>.)
\<close>

theorem C10_sun_ring_differs:
  "visible (orbit_g (sun_g (run_g (module_main 800 600 250 True 0 (\<lambda>r. [])) [GuiShowOrbits]))) \<and>
   map (\<lambda>p. visible (orbit_g p))
       (planets_g (run_g (module_main 800 600 250 True 0 (\<lambda>r. [])) [GuiShowOrbits]))
     = replicate 8 False \<and>
   RefSunOrbit \<in> set (scene_g (run_g (module_main 800 600 250 True 0 (\<lambda>r. [])) [GuiShowOrbits])) \<and>
   RefOrbit 0 \<in> set (scene_g (run_g (module_main 800 600 250 True 0 (\<lambda>r. [])) [GuiShowOrbits]))"
proof -
  have "map (\<lambda>p. visible (orbit_g p))
          (planets_g (gui_showOrbits (module_main 800 600 250 True 0 (\<lambda>r. []))))
          = replicate 8 False"
    by (simp add: gui_showOrbits_fields comp_def module_main_fields module_main_length
        map_replicate_const)
  then show ?thesis
    by (simp add: run_g_def gui_showOrbits_fields module_main_sun_visible sun_orbit_in_scene)
qed

end
